theory Spec2Isabelle
  imports Main "HOL-Library.Sublist"
begin

section \<open>Text primitives of the Python source\<close>

text \<open>
  Strings are modelled as lists of 8-bit characters, read as the code points 0 to 255;
  text with a code point from 256 on is not represented. On this range the character
  functions are those of Python 3: \<open>str.lower\<close> acts character by character and maps \<open>A..Z\<close>
  and the capital letters 192 to 222 (except the multiplication sign 215) to the letter 32
  places further; \<open>str.isalnum\<close> holds of the ASCII letters and digits, of the letters from
  192 on (except 215 and 247), and of 170, 178, 179, 181, 185, 186, 188, 189, 190; the
  regular expression class \<open>\w\<close> is \<open>str.isalnum\<close> or underscore; and \<open>\s\<close>, \<open>str.isspace\<close> and
  \<open>str.strip\<close> agree on the whitespace characters 9 to 13, 28 to 32, 133 and 160.
  Python's \<open>k in text\<close> on strings is the contiguous-sublist test \<^const>\<open>sublist\<close>.
\<close>

definition lower_char :: "char \<Rightarrow> char" where
  "lower_char c =
     (let n = (of_char c :: nat)
      in if (65 \<le> n \<and> n \<le> 90) \<or> (192 \<le> n \<and> n \<le> 214) \<or> (216 \<le> n \<and> n \<le> 222)
         then char_of (n + 32) else c)"

definition lower :: "string \<Rightarrow> string" where
  "lower s = map lower_char s"

definition is_alnum :: "char \<Rightarrow> bool" where
  \<comment> \<open>\<open>str.isalnum\<close>\<close>
  "is_alnum c =
     (let n = (of_char c :: nat)
      in (48 \<le> n \<and> n \<le> 57) \<or> (65 \<le> n \<and> n \<le> 90) \<or> (97 \<le> n \<and> n \<le> 122)
         \<or> n = 170 \<or> n = 178 \<or> n = 179 \<or> n = 181 \<or> n = 185 \<or> n = 186
         \<or> (188 \<le> n \<and> n \<le> 190)
         \<or> (192 \<le> n \<and> n \<noteq> 215 \<and> n \<noteq> 247))"

definition is_word :: "char \<Rightarrow> bool" where
  \<comment> \<open>the class \<open>\w\<close>: alphanumeric or underscore\<close>
  "is_word c = (is_alnum c \<or> c = CHR ''_'')"

definition is_space :: "char \<Rightarrow> bool" where
  \<comment> \<open>the class \<open>\s\<close>, and the characters \<open>str.strip()\<close> removes\<close>
  "is_space c =
     (let n = (of_char c :: nat)
      in (9 \<le> n \<and> n \<le> 13) \<or> (28 \<le> n \<and> n \<le> 32) \<or> n = 133 \<or> n = 160)"

definition is_ascii :: "char \<Rightarrow> bool" where
  "is_ascii c = ((of_char c :: nat) < 128)"

definition ascii_text :: "string \<Rightarrow> bool" where
  "ascii_text s = list_all is_ascii s"

definition is_punct :: "char \<Rightarrow> bool" where
  \<comment> \<open>ASCII punctuation (Python's \<open>string.punctuation\<close>): printable, not alphanumeric, not blank\<close>
  "is_punct c =
     (let n = (of_char c :: nat) in 33 \<le> n \<and> n \<le> 126 \<and> \<not> is_alnum c)"

definition strip :: "string \<Rightarrow> string" where
  "strip s = rev (dropWhile is_space (rev (dropWhile is_space s)))"

section \<open>Data model (models.py)\<close>

record scraped_job =
  title :: string
  company :: string
  company_id :: nat
  location :: string
  description :: string
  requirements :: "string list"
  experience_level :: string
  application_url :: string

section \<open>Normalizer (deduplication.py)\<close>

definition normalize :: "string \<Rightarrow> string" where
  \<comment> \<open>\<open>re.sub(r"[^\w\s]", "", text.lower()).strip()\<close>\<close>
  "normalize text = strip (filter (\<lambda>c. \<not> (\<not> is_word c \<and> \<not> is_space c)) (lower text))"

definition job_key :: "scraped_job \<Rightarrow> string" where
  "job_key job =
     normalize (title job) @ ''|'' @ normalize (company job) @ ''|'' @ normalize (location job)"

fun dedup_loop :: "scraped_job list \<Rightarrow> string set \<Rightarrow> scraped_job list \<Rightarrow> scraped_job list" where
  "dedup_loop [] seen unique = unique"
| "dedup_loop (j # js) seen unique =
     (let k = job_key j
      in if k \<notin> seen then dedup_loop js (insert k seen) (unique @ [j])
         else dedup_loop js seen unique)"

definition deduplicate :: "scraped_job list \<Rightarrow> scraped_job list" where
  "deduplicate jobs = dedup_loop jobs {} []"

text \<open>
  The normalisation as the specification words it: lower-case, strip every character that
  is not alphanumeric or whitespace, trim.
\<close>

definition normalize_spec :: "string \<Rightarrow> string" where
  "normalize_spec text = strip (filter (\<lambda>c. is_alnum c \<or> is_space c) (lower text))"

text \<open>
  Two strings differ only in case, in characters of the class \<open>P\<close> and in surrounding
  whitespace: the least equivalence closed under changing the case of one character,
  inserting a character of \<open>P\<close> anywhere, and adding a whitespace character at either end.
\<close>

inductive differ_only :: "(char \<Rightarrow> bool) \<Rightarrow> string \<Rightarrow> string \<Rightarrow> bool"
  for P :: "char \<Rightarrow> bool" where
  same: "differ_only P s s"
| flip: "differ_only P s t \<Longrightarrow> differ_only P t s"
| chain: "differ_only P s t \<Longrightarrow> differ_only P t u \<Longrightarrow> differ_only P s u"
| letter_case: "lower_char c = lower_char d \<Longrightarrow> differ_only P (xs @ c # ys) (xs @ d # ys)"
| punctuation: "P c \<Longrightarrow> differ_only P (xs @ ys) (xs @ c # ys)"
| leading_space: "is_space c \<Longrightarrow> differ_only P s (c # s)"
| trailing_space: "is_space c \<Longrightarrow> differ_only P s (s @ [c])"

section \<open>Company records and scraping configuration (models.py, metadata.py)\<close>

text \<open>
  A dictionary read with \<open>.get\<close> is a function into \<open>option\<close>: \<open>None\<close> stands for a missing
  key and for a \<open>null\<close> value alike. The fields of a scraped item are strings.
  Python's \<open>a or b\<close> yields \<open>a\<close> when \<open>a\<close> is truthy (a non-empty string) and \<open>b\<close> otherwise.
\<close>

definition truthy :: "string option \<Rightarrow> bool" where
  "truthy x = (case x of None \<Rightarrow> False | Some s \<Rightarrow> s \<noteq> [])"

definition py_or :: "string option \<Rightarrow> string option \<Rightarrow> string option" where
  "py_or a b = (if truthy a then a else b)"

definition or_str :: "string option \<Rightarrow> string \<Rightarrow> string" where
  \<comment> \<open>\<open>a or b\<close> with a string literal (or a string known to be present) as the last alternative\<close>
  "or_str a b = (case a of None \<Rightarrow> b | Some s \<Rightarrow> if s \<noteq> [] then s else b)"

record endpoint_payload =
  ep_type :: "string option"
  ep_method :: "string option"
  ep_headers :: "(string \<times> string) list"

definition empty_payload :: endpoint_payload where
  \<comment> \<open>the dictionary \<open>{}\<close>\<close>
  "empty_payload = \<lparr>ep_type = None, ep_method = None, ep_headers = []\<rparr>"

text \<open>
  A key of the scraping configuration is absent, present with the value \<open>None\<close>, or present
  with a value: the merge \<open>{**a, **b}\<close> tells the first two apart.
\<close>

datatype 'a entry = Missing | Null | Value 'a

record scraping_config =
  jobListingSelector :: "string entry"
  jobSelectors :: "(string \<times> string) list entry"
  experienceLevelMapping :: "(string \<times> string) list entry"

text \<open>
  The dataclass \<open>Company\<close> declares \<open>careers_endpoint_payload\<close> and \<open>scraping_config\<close> as
  dictionaries and checks nothing: the two fields hold what the caller passes,
  a dictionary or, from \<open>load_active_companies\<close>, the \<open>str\<close> that the database driver returns
  for a JSON column.
\<close>

datatype 'a dict_or_str = Dict 'a | Str string

record Company =
  co_id :: nat
  co_name :: string
  co_domain :: "string option"
  co_careers_url :: "string option"
  co_endpoint_payload :: "endpoint_payload dict_or_str"
  co_scraping_config :: "scraping_config dict_or_str"

definition default_jobListingSelector :: string where
  "default_jobListingSelector = ''.job, .position, .opening, [data-job], .job-listing, .career-item''"

definition default_jobSelectors :: "(string \<times> string) list" where
  "default_jobSelectors =
     [(''title'', ''.title, .job-title, h2, h3, .position-title, .role-title''),
      (''location'', ''.location, .job-location, .office, .city''),
      (''description'', ''.description, .job-description, .summary, .content''),
      (''requirements'', ''.requirements, .qualifications, .skills, ul li''),
      (''applicationUrl'', ''.apply, .apply-link, a[href*=apply], .btn-apply'')]"

definition default_experienceLevelMapping :: "(string \<times> string) list" where
  \<comment> \<open>in the insertion order of the dictionary literal, which is its iteration order\<close>
  "default_experienceLevelMapping =
     [(''junior'', ''entry''), (''entry'', ''entry''), (''graduate'', ''entry''),
      (''intern'', ''entry''), (''mid-level'', ''mid''), (''mid'', ''mid''),
      (''intermediate'', ''mid''), (''senior'', ''senior''), (''sr'', ''senior''),
      (''lead'', ''lead''), (''principal'', ''lead''), (''staff'', ''lead''),
      (''director'', ''lead'')]"

definition DEFAULT_SCRAPING_CONFIG :: scraping_config where
  "DEFAULT_SCRAPING_CONFIG =
     \<lparr>jobListingSelector = Value default_jobListingSelector,
      jobSelectors = Value default_jobSelectors,
      experienceLevelMapping = Value default_experienceLevelMapping\<rparr>"

definition any_in :: "string list \<Rightarrow> string \<Rightarrow> bool" where
  \<comment> \<open>\<open>any(t in text for t in ts)\<close>\<close>
  "any_in ts text = list_ex (\<lambda>t. sublist t text) ts"

definition detect_endpoint :: "string \<Rightarrow> endpoint_payload" where
  "detect_endpoint url =
     (if any_in [''/api/'', ''.json'', ''/v1/'', ''/v2/''] url
      then \<lparr>ep_type = Some ''api'', ep_method = Some ''GET'',
            ep_headers = [(''Accept'', ''application/json'')]\<rparr>
      else \<lparr>ep_type = Some ''webpage'', ep_method = Some ''GET'', ep_headers = []\<rparr>)"

section \<open>Scrape adapter (job_scraper.py)\<close>

fun split_on :: "char \<Rightarrow> string \<Rightarrow> string list" where
  "split_on d [] = [[]]"
| "split_on d (c # cs) =
     (if c = d then [] # split_on d cs
      else (case split_on d cs of p # ps \<Rightarrow> (c # p) # ps | [] \<Rightarrow> [[c]]))"

definition parse_requirements :: "string \<Rightarrow> string list" where
  "parse_requirements text =
     (if text = [] then []
      else take 10 (filter (\<lambda>p. 0 < length p \<and> length p < 200)
                      (map strip (split_on (CHR 0x0A) text))))"

fun first_mapping_match :: "(string \<times> string) list \<Rightarrow> string \<Rightarrow> string option" where
  \<comment> \<open>\<open>for k, v in mapping.items(): if k in text: return v\<close>\<close>
  "first_mapping_match [] text = None"
| "first_mapping_match ((k, v) # rest) text =
     (if sublist k text then Some v else first_mapping_match rest text)"

definition determine_level :: "string \<Rightarrow> string \<Rightarrow> (string \<times> string) list \<Rightarrow> string" where
  "determine_level ttl desc mapping =
     (let text = lower (ttl @ '' '' @ desc)
      in case first_mapping_match mapping text of
           Some v \<Rightarrow> v
         | None \<Rightarrow>
             if any_in [''junior'', ''entry'', ''graduate''] text then ''entry''
             else if any_in [''senior'', ''sr.''] text then ''senior''
             else if any_in [''lead'', ''principal'', ''staff''] text then ''lead''
             else ''mid'')"

text \<open>
  The response of the careers API after \<open>resp.json()\<close>: a bare array of items, an object
  (of which only the list-valued keys matter), or anything else.
\<close>

type_synonym api_item = "string \<Rightarrow> string option"

datatype api_response =
  Array "api_item list"
| Object "string \<Rightarrow> api_item list option"
| Other

fun first_list_key :: "string list \<Rightarrow> (string \<Rightarrow> api_item list option) \<Rightarrow> api_item list option" where
  "first_list_key [] obj = None"
| "first_list_key (key # keys) obj =
     (case obj key of Some l \<Rightarrow> Some l | None \<Rightarrow> first_list_key keys obj)"

fun extract_jobs_array :: "api_response \<Rightarrow> api_item list" where
  "extract_jobs_array (Object obj) =
     (case first_list_key [''jobs'', ''data'', ''results'', ''positions'', ''openings''] obj of
        Some l \<Rightarrow> l | None \<Rightarrow> [])"
| "extract_jobs_array (Array l) = l"
| "extract_jobs_array Other = []"

text \<open>
  In \<open>parse_api_job\<close> and \<open>scrape_web\<close> the argument \<open>url\<close> is \<open>company.careers_url\<close>, which
  \<open>scrape_company\<close> has tested to be a non-empty string before either is reached.
\<close>

definition parse_api_job :: "api_item \<Rightarrow> Company \<Rightarrow> string \<Rightarrow> scraped_job option" where
  "parse_api_job item co url =
     (let ttl = py_or (py_or (item ''title'') (item ''name'')) (item ''position'')
      in case ttl of
           None \<Rightarrow> None
         | Some t \<Rightarrow>
             if t = [] then None
             else
               let loc = or_str (py_or (py_or (item ''location'') (item ''office'')) (item ''city''))
                           ''Remote'';
                   desc = or_str (py_or (item ''description'') (item ''summary'')) [];
                   apply_url = or_str (py_or (py_or (item ''apply_url'') (item ''url'')) (item ''link''))
                                 url;
                   req_text = or_str (py_or (py_or (item ''requirements'') (item ''qualifications''))
                                        (item ''skills'')) desc
               in Some \<lparr>title = strip t, company = co_name co, company_id = co_id co,
                         location = strip loc, description = strip desc,
                         requirements = parse_requirements req_text,
                         experience_level = determine_level t desc default_experienceLevelMapping,
                         application_url = apply_url\<rparr>)"

text \<open>
  A listing element of a page, as the two accessors see it: \<open>el_text sel\<close> is what
  \<open>_text(el, sel)\<close> returns (the empty string when nothing matches or the lookup fails) and
  \<open>el_href sel\<close> what \<open>_attr(el, sel, "href")\<close> returns.
\<close>

record element =
  el_text :: "string \<Rightarrow> string"
  el_href :: "string \<Rightarrow> string option"

definition override :: "'a entry \<Rightarrow> 'a entry \<Rightarrow> 'a entry" where
  \<comment> \<open>one key of \<open>{**a, **b}\<close>: the entry of \<open>b\<close> wins when the key is present in \<open>b\<close>\<close>
  "override a b = (case b of Missing \<Rightarrow> a | Null \<Rightarrow> Null | Value v \<Rightarrow> Value v)"

definition merged_config :: "Company \<Rightarrow> scraping_config option" where
  \<comment> \<open>\<open>{**DEFAULT_SCRAPING_CONFIG, **(company.scraping_config or {})}\<close>; \<open>None\<close>: the
      configuration is a non-empty \<open>str\<close>, which \<open>**\<close> refuses with a \<open>TypeError\<close>\<close>
  "merged_config co =
     (case co_scraping_config co of
        Str s \<Rightarrow> if s = [] then Some DEFAULT_SCRAPING_CONFIG else None
      | Dict c \<Rightarrow>
          Some \<lparr>jobListingSelector =
                  override (jobListingSelector DEFAULT_SCRAPING_CONFIG) (jobListingSelector c),
                jobSelectors =
                  override (jobSelectors DEFAULT_SCRAPING_CONFIG) (jobSelectors c),
                experienceLevelMapping =
                  override (experienceLevelMapping DEFAULT_SCRAPING_CONFIG)
                    (experienceLevelMapping c)\<rparr>)"

definition parse_element ::
  "(string \<times> string) list \<Rightarrow> (string \<times> string) list \<Rightarrow> Company \<Rightarrow> string \<Rightarrow> element
     \<Rightarrow> scraped_job option" where
  \<comment> \<open>the body of the loop over elements; \<open>None\<close> when the element is skipped, by \<open>continue\<close>
      or because a missing selector key raises inside the inner \<open>try\<close>\<close>
  "parse_element selectors mapping co url el =
     (case (map_of selectors ''title'', map_of selectors ''location'',
            map_of selectors ''description'', map_of selectors ''requirements'',
            map_of selectors ''applicationUrl'') of
        (Some s_title, Some s_loc, Some s_desc, Some s_req, Some s_url) \<Rightarrow>
          let t = el_text el s_title
          in if t = [] then None
             else
               let loc = or_str (Some (el_text el s_loc)) ''Not specified'';
                   desc = or_str (Some (el_text el s_desc)) [];
                   req_text = or_str (Some (el_text el s_req)) desc;
                   app_url = or_str (el_href el s_url) url
               in Some \<lparr>title = strip t, company = co_name co, company_id = co_id co,
                         location = strip loc, description = strip desc,
                         requirements = parse_requirements req_text,
                         experience_level = determine_level t desc mapping,
                         application_url = app_url\<rparr>
      | _ \<Rightarrow> None)"

text \<open>
  The outside world of the scraper: \<open>http_get url\<close> is the decoded response of the careers
  API, \<open>load_page url selector\<close> the listing elements of the loaded page; \<open>None\<close> means that
  the request raised.
\<close>

record web =
  http_get :: "string \<Rightarrow> api_response option"
  load_page :: "string \<Rightarrow> string \<Rightarrow> element list option"

definition scrape_api :: "web \<Rightarrow> Company \<Rightarrow> string \<Rightarrow> scraped_job list option" where
  \<comment> \<open>\<open>None\<close>: the request raised, and the exception leaves \<open>_scrape_api\<close>\<close>
  "scrape_api net co url =
     (case http_get net url of
        None \<Rightarrow> None
      | Some data \<Rightarrow>
          Some (List.map_filter (\<lambda>item. parse_api_job item co url) (extract_jobs_array data)))"

definition scrape_web :: "web \<Rightarrow> Company \<Rightarrow> string \<Rightarrow> scraped_job list option" where
  \<comment> \<open>\<open>None\<close>: the merge of the configuration, which comes before the \<open>try\<close>, raised. A
      failure of the page load is caught inside \<open>_scrape_web\<close> and leaves no jobs, and so
      does a \<open>None\<close> under one of the three keys: as the listing selector it makes the wait
      for the listing raise, as the selectors or the mapping it makes every element raise
      inside the inner \<open>try\<close>\<close>
  "scrape_web net co url =
     (case merged_config co of
        None \<Rightarrow> None
      | Some config \<Rightarrow>
          Some (case (jobListingSelector config, jobSelectors config,
                      experienceLevelMapping config) of
                  (Value listing, Value selectors, Value mapping) \<Rightarrow>
                    (case load_page net url listing of
                       None \<Rightarrow> []
                     | Some elements \<Rightarrow>
                         List.map_filter (parse_element selectors mapping co url) elements)
                | _ \<Rightarrow> []))"

definition scrape_dispatch :: "web \<Rightarrow> Company \<Rightarrow> endpoint_payload \<Rightarrow> scraped_job list" where
  \<comment> \<open>\<open>scrape_company\<close> from the second statement on, \<open>payload\<close> being a dictionary; what
      the two modes raise is caught by the \<open>try\<close> and leaves no jobs\<close>
  "scrape_dispatch net co payload =
     (let has_url = truthy (co_careers_url co);
          url = or_str (co_careers_url co) [];
          t = or_str (ep_type payload)
                (if has_url \<and> any_in [''/api/'', ''.json''] url then ''api'' else ''webpage'')
      in if t = ''api'' \<and> has_url then (case scrape_api net co url of None \<Rightarrow> [] | Some found \<Rightarrow> found)
         else if has_url then (case scrape_web net co url of None \<Rightarrow> [] | Some found \<Rightarrow> found)
         else [])"

definition scrape_company :: "web \<Rightarrow> Company \<Rightarrow> string + scraped_job list" where
  \<comment> \<open>\<open>payload = company.careers_endpoint_payload or {}\<close>, then \<open>payload.get("type")\<close>, which is
      outside the \<open>try\<close>: on a non-empty \<open>str\<close> it raises \<open>AttributeError\<close>, and the exception
      leaves \<open>scrape_company\<close> (\<open>Inl\<close>)\<close>
  "scrape_company net co =
     (case co_endpoint_payload co of
        Dict payload \<Rightarrow> Inr (scrape_dispatch net co payload)
      | Str s \<Rightarrow>
          if s = [] then Inr (scrape_dispatch net co empty_payload)
          else Inl ''AttributeError: str object has no attribute get'')"

section \<open>The store (db.py and the SQL statements of pipeline.py)\<close>

text \<open>
  Tables are lists of rows in table order, keys are natural numbers, timestamps are natural
  numbers. A job row is a scraped job with the columns \<open>id\<close>, \<open>is_available\<close> and
  \<open>updated_at\<close> added; a company row is a discovered candidate with the remaining columns
  added. The table definitions are not part of the sources: that \<open>id\<close> is a generated
  primary key, that a fresh row's \<open>updated_at\<close> is the time of the insert, and that
  \<open>started_at\<close> of a queued run is the time it was enqueued are taken from the statements
  that use them (\<open>ON CONFLICT (name)\<close>, \<open>ON CONFLICT (application_url)\<close>,
  \<open>ORDER BY started_at\<close>). A JSON column (\<open>careers_endpoint_payload\<close> and \<open>scraping_config\<close>
  of a company, \<open>details\<close> of a run) holds the text of a JSON document: db.py creates the
  pool without a codec for JSON, so text is what the driver sends for such a column and
  what it returns for it.
\<close>

record RunMetrics =
  companies_discovered :: nat
  companies_with_careers :: nat
  companies_scraped :: nat
  jobs_scraped :: nat
  jobs_inserted :: nat
  jobs_updated :: nat
  jobs_marked_unavailable :: nat
  errors :: "string list"

definition new_metrics :: RunMetrics where
  "new_metrics =
     \<lparr>companies_discovered = 0, companies_with_careers = 0, companies_scraped = 0,
      jobs_scraped = 0, jobs_inserted = 0, jobs_updated = 0, jobs_marked_unavailable = 0,
      errors = []\<rparr>"

record job_row = scraped_job +
  job_id :: nat
  is_available :: bool
  updated_at :: nat

record discovered =
  name :: string
  domain :: "string option"
  careers_url :: "string option"
  discovery_source :: "string option"

record company_row = discovered +
  company_pk :: nat
  careers_endpoint_payload :: "string option"
  scraping_config_col :: "string option"
  is_active :: bool
  company_updated_at :: nat

datatype run_status = Queued | Running | Success | Failed

record run_row =
  run_id :: nat
  status :: run_status
  started_at :: nat
  finished_at :: "nat option"
  details :: "string option"
  col_companies_scraped :: nat
  col_jobs_scraped :: nat
  col_jobs_inserted :: nat
  col_jobs_updated :: nat
  col_jobs_marked_unavailable :: nat

record database =
  companies :: "company_row list"
  jobs :: "job_row list"
  scraping_runs :: "run_row list"

text \<open>
  The world a worker runs in: the database and the number of statements executed on it so
  far. The environment says, for each statement by its number, whether it raises (and with
  which message), what \<open>NOW()\<close> is, and which run rows are locked by transactions of other
  sessions; and, for each run, what discovery returns and what the web holds.
  Every \<open>fetch\<close>, \<open>fetchrow\<close> and \<open>execute\<close> of db.py goes through the pool on its own: it is
  one statement in its own transaction, and a row lock it takes ends with it.
\<close>

record world =
  db :: database
  ops :: nat

record env =
  faults :: "nat \<Rightarrow> string option"
  clock :: "nat \<Rightarrow> nat"
  locked :: "nat \<Rightarrow> nat set"
  discover :: "nat \<Rightarrow> discovered list"
  web_of_run :: "nat \<Rightarrow> web"

definition stmt :: "env \<Rightarrow> (database \<Rightarrow> database \<times> 'a) \<Rightarrow> world \<Rightarrow> (string + 'a) \<times> world" where
  "stmt e f w =
     (case faults e (ops w) of
        Some msg \<Rightarrow> (Inl msg, w\<lparr>ops := Suc (ops w)\<rparr>)
      | None \<Rightarrow> (case f (db w) of (d, a) \<Rightarrow> (Inr a, \<lparr>db = d, ops = Suc (ops w)\<rparr>)))"

text \<open>
  A query argument for a JSON column, as Python passes it. With no codec registered the
  driver takes \<open>None\<close> and a \<open>str\<close>, whether the column is declared \<open>json\<close>, \<open>jsonb\<close> or \<open>text\<close>;
  it refuses a \<open>dict\<close> with a \<open>DataError\<close> when it encodes the arguments, after the
  statement has been prepared and before it is executed.
\<close>

datatype 'd json_arg = Py_none | Py_str string | Py_dict 'd

definition data_error :: string where
  \<comment> \<open>the driver's message, without the number of the argument and the value it shows\<close>
  "data_error = ''invalid input for query argument (expected str, got dict)''"

definition encode_json :: "'d json_arg \<Rightarrow> string + string option" where
  "encode_json a =
     (case a of Py_none \<Rightarrow> Inr None | Py_str s \<Rightarrow> Inr (Some s) | Py_dict d \<Rightarrow> Inl data_error)"

definition stmt_json ::
  "env \<Rightarrow> 'd json_arg \<Rightarrow> (string option \<Rightarrow> database \<Rightarrow> database \<times> 'a) \<Rightarrow> world
     \<Rightarrow> (string + 'a) \<times> world" where
  \<comment> \<open>a statement with an argument for a JSON column\<close>
  "stmt_json e a f w =
     (case faults e (ops w) of
        Some msg \<Rightarrow> (Inl msg, w\<lparr>ops := Suc (ops w)\<rparr>)
      | None \<Rightarrow>
          (case encode_json a of
             Inl err \<Rightarrow> (Inl err, w\<lparr>ops := Suc (ops w)\<rparr>)
           | Inr v \<Rightarrow> (case f v (db w) of (d, r) \<Rightarrow> (Inr r, \<lparr>db = d, ops = Suc (ops w)\<rparr>))))"

definition fresh_key :: "nat list \<Rightarrow> nat" where
  \<comment> \<open>a generated primary key: one not in the table\<close>
  "fresh_key ks = Suc (fold max ks 0)"

subsection \<open>Claiming a run\<close>

fun oldest :: "run_row list \<Rightarrow> run_row option" where
  \<comment> \<open>\<open>ORDER BY started_at ASC LIMIT 1\<close>; among equal timestamps the first row in table order\<close>
  "oldest [] = None"
| "oldest (r # rs) =
     (case oldest rs of
        None \<Rightarrow> Some r
      | Some r' \<Rightarrow> if started_at r \<le> started_at r' then Some r else Some r')"

definition select_queued :: "nat set \<Rightarrow> database \<Rightarrow> nat option" where
  \<comment> \<open>\<open>SELECT id FROM scraping_runs WHERE status='queued' ORDER BY started_at ASC
      FOR UPDATE SKIP LOCKED LIMIT 1\<close>\<close>
  "select_queued lk d =
     map_option run_id
       (oldest (filter (\<lambda>r. status r = Queued \<and> run_id r \<notin> lk) (scraping_runs d)))"

definition set_running :: "nat \<Rightarrow> nat \<Rightarrow> database \<Rightarrow> database" where
  \<comment> \<open>\<open>UPDATE scraping_runs SET status='running', started_at=NOW() WHERE id=$1\<close>\<close>
  "set_running rid now d =
     d\<lparr>scraping_runs :=
         map (\<lambda>r. if run_id r = rid then r\<lparr>status := Running, started_at := now\<rparr> else r)
           (scraping_runs d)\<rparr>"

definition claim_select :: "env \<Rightarrow> world \<Rightarrow> (string + nat option) \<times> world" where
  "claim_select e w = stmt e (\<lambda>d. (d, select_queued (locked e (ops w)) d)) w"

definition claim_update :: "env \<Rightarrow> nat \<Rightarrow> world \<Rightarrow> (string + unit) \<times> world" where
  "claim_update e rid w = stmt e (\<lambda>d. (set_running rid (clock e (ops w)) d, ())) w"

definition claim_next_run :: "env \<Rightarrow> world \<Rightarrow> (string + nat option) \<times> world" where
  "claim_next_run e w =
     (case claim_select e w of
        (Inl err, w1) \<Rightarrow> (Inl err, w1)
      | (Inr None, w1) \<Rightarrow> (Inr None, w1)
      | (Inr (Some rid), w1) \<Rightarrow>
          (case claim_update e rid w1 of
             (Inl err, w2) \<Rightarrow> (Inl err, w2)
           | (Inr u, w2) \<Rightarrow> (Inr (Some rid), w2)))"

subsection \<open>Companies\<close>

definition load_active_companies :: "env \<Rightarrow> world \<Rightarrow> (string + Company list) \<times> world" where
  \<comment> \<open>\<open>r["careers_endpoint_payload"] or {}\<close> and \<open>r["scraping_config"] or
      DEFAULT_SCRAPING_CONFIG\<close>: a stored document comes back as a \<open>str\<close> and is passed on\<close>
  "load_active_companies e w =
     stmt e (\<lambda>d. (d, map (\<lambda>r. \<lparr>co_id = company_pk r, co_name = name r, co_domain = domain r,
                               co_careers_url = careers_url r,
                               co_endpoint_payload =
                                 (if truthy (careers_endpoint_payload r)
                                  then Str (or_str (careers_endpoint_payload r) [])
                                  else Dict empty_payload),
                               co_scraping_config =
                                 (if truthy (scraping_config_col r)
                                  then Str (or_str (scraping_config_col r) [])
                                  else Dict DEFAULT_SCRAPING_CONFIG)\<rparr>)
                     (take 200 (filter is_active (companies d))))) w"

definition coalesce :: "'a option \<Rightarrow> 'a option \<Rightarrow> 'a option" where
  "coalesce a b = (case a of Some x \<Rightarrow> Some x | None \<Rightarrow> b)"

definition upsert_company :: "discovered \<Rightarrow> string option \<Rightarrow> nat \<Rightarrow> database \<Rightarrow> database" where
  \<comment> \<open>the \<open>INSERT INTO companies ... ON CONFLICT (name) DO UPDATE\<close> of \<open>upsert_companies\<close>;
      \<open>payload\<close> is the argument \<open>$4\<close> as the driver has encoded it\<close>
  "upsert_company c payload now d =
     (if \<exists>r \<in> set (companies d). name r = name c
      then d\<lparr>companies :=
               map (\<lambda>r. if name r = name c
                         then r\<lparr>domain := domain c,
                                careers_url := coalesce (careers_url c) (careers_url r),
                                careers_endpoint_payload :=
                                  coalesce payload (careers_endpoint_payload r),
                                company_updated_at := now\<rparr>
                         else r)
                 (companies d)\<rparr>
      else d\<lparr>companies :=
               companies d @
               [\<lparr>name = name c, domain = domain c, careers_url = careers_url c,
                 discovery_source = Some (or_str (discovery_source c) ''search_engine''),
                 company_pk = fresh_key (map company_pk (companies d)),
                 careers_endpoint_payload = payload, scraping_config_col = None,
                 is_active = True, company_updated_at = now\<rparr>]\<rparr>)"

definition payload_arg :: "discovered \<Rightarrow> endpoint_payload json_arg" where
  \<comment> \<open>\<open>detect_endpoint(c.get("careers_url")) if c.get("careers_url") else None\<close>\<close>
  "payload_arg c =
     (if truthy (careers_url c) then Py_dict (detect_endpoint (or_str (careers_url c) []))
      else Py_none)"

fun upsert_companies_loop :: "env \<Rightarrow> nat \<Rightarrow> discovered list \<Rightarrow> world \<Rightarrow> (string + unit) \<times> world" where
  "upsert_companies_loop e now [] w = (Inr (), w)"
| "upsert_companies_loop e now (c # cs) w =
     (case stmt_json e (payload_arg c) (\<lambda>payload d. (upsert_company c payload now d, ())) w of
        (Inl err, w1) \<Rightarrow> (Inl err, w1)
      | (Inr u, w1) \<Rightarrow> upsert_companies_loop e now cs w1)"

definition upsert_companies :: "env \<Rightarrow> discovered list \<Rightarrow> world \<Rightarrow> (string + nat) \<times> world" where
  \<comment> \<open>one transaction around the loop: when a statement raises, the writes are undone\<close>
  "upsert_companies e found w =
     (if found = [] then (Inr 0, w)
      else case upsert_companies_loop e (clock e (ops w)) found w of
             (Inl err, w1) \<Rightarrow> (Inl err, w1\<lparr>db := db w\<rparr>)
           | (Inr u, w1) \<Rightarrow> (Inr (length found), w1))"

subsection \<open>Jobs\<close>

definition upsert_job :: "scraped_job \<Rightarrow> nat \<Rightarrow> database \<Rightarrow> database \<times> bool" where
  \<comment> \<open>the \<open>INSERT INTO jobs ... ON CONFLICT (application_url) DO UPDATE ... RETURNING xmax = 0\<close>
      of \<open>save_jobs\<close>; the flag is \<open>inserted\<close>\<close>
  "upsert_job j now d =
     (if \<exists>r \<in> set (jobs d). application_url r = application_url j
      then (d\<lparr>jobs :=
                map (\<lambda>r. if application_url r = application_url j
                          then r\<lparr>title := title j, location := location j,
                                 description := description j,
                                 requirements := requirements j,
                                 experience_level := experience_level j,
                                 is_available := True, updated_at := now\<rparr>
                          else r)
                  (jobs d)\<rparr>, False)
      else (d\<lparr>jobs :=
                jobs d @
                [\<lparr>title = title j, company = company j, company_id = company_id j,
                  location = location j, description = description j,
                  requirements = requirements j, experience_level = experience_level j,
                  application_url = application_url j,
                  job_id = fresh_key (map job_id (jobs d)), is_available = True,
                  updated_at = now\<rparr>]\<rparr>, True))"

fun save_jobs_loop ::
  "env \<Rightarrow> nat \<Rightarrow> scraped_job list \<Rightarrow> world \<Rightarrow> RunMetrics \<Rightarrow> (string + unit) \<times> world \<times> RunMetrics" where
  "save_jobs_loop e now [] w m = (Inr (), w, m)"
| "save_jobs_loop e now (j # js) w m =
     (case stmt e (upsert_job j now) w of
        (Inl err, w1) \<Rightarrow> (Inl err, w1, m)
      | (Inr inserted, w1) \<Rightarrow>
          save_jobs_loop e now js w1
            (if inserted then m\<lparr>jobs_inserted := jobs_inserted m + 1\<rparr>
             else m\<lparr>jobs_updated := jobs_updated m + 1\<rparr>))"

definition save_jobs ::
  "env \<Rightarrow> scraped_job list \<Rightarrow> world \<Rightarrow> RunMetrics \<Rightarrow> (string + unit) \<times> world \<times> RunMetrics" where
  \<comment> \<open>one transaction around the loop; the metrics object is not part of it\<close>
  "save_jobs e js w m =
     (if js = [] then (Inr (), w, m)
      else case save_jobs_loop e (clock e (ops w)) js w m of
             (Inl err, w1, m1) \<Rightarrow> (Inl err, w1\<lparr>db := db w\<rparr>, m1)
           | (Inr u, w1, m1) \<Rightarrow> (Inr (), w1, m1))"

definition select_available :: "nat \<Rightarrow> database \<Rightarrow> (nat \<times> string) list" where
  \<comment> \<open>\<open>SELECT id, application_url FROM jobs WHERE company_id=$1 AND is_available=true\<close>\<close>
  "select_available cid d =
     map (\<lambda>r. (job_id r, application_url r))
       (filter (\<lambda>r. company_id r = cid \<and> is_available r) (jobs d))"

definition disable_jobs :: "nat list \<Rightarrow> nat \<Rightarrow> database \<Rightarrow> database" where
  \<comment> \<open>\<open>UPDATE jobs SET is_available=false, updated_at=NOW() WHERE id = ANY($1)\<close>\<close>
  "disable_jobs ids now d =
     d\<lparr>jobs := map (\<lambda>r. if job_id r \<in> set ids
                         then r\<lparr>is_available := False, updated_at := now\<rparr> else r)
                  (jobs d)\<rparr>"

definition invalidate_missing ::
  "env \<Rightarrow> Company \<Rightarrow> string list \<Rightarrow> world \<Rightarrow> RunMetrics \<Rightarrow> (string + unit) \<times> world \<times> RunMetrics" where
  "invalidate_missing e co current_urls w m =
     (if current_urls = [] then (Inr (), w, m)
      else case stmt e (\<lambda>d. (d, select_available (co_id co) d)) w of
             (Inl err, w1) \<Rightarrow> (Inl err, w1, m)
           | (Inr res, w1) \<Rightarrow>
               let to_disable = map fst (filter (\<lambda>(i, u). u \<notin> set current_urls) res)
               in if to_disable = [] then (Inr (), w1, m)
                  else case stmt e (\<lambda>d. (disable_jobs to_disable (clock e (ops w1)) d, ())) w1 of
                         (Inl err, w2) \<Rightarrow> (Inl err, w2, m)
                       | (Inr u, w2) \<Rightarrow>
                           (Inr (), w2,
                            m\<lparr>jobs_marked_unavailable :=
                                jobs_marked_unavailable m + length to_disable\<rparr>))"

section \<open>Run coordinator (pipeline.py)\<close>

definition process_company ::
  "env \<Rightarrow> nat \<Rightarrow> Company \<Rightarrow> world \<Rightarrow> RunMetrics \<Rightarrow> (string + unit) \<times> world \<times> RunMetrics" where
  \<comment> \<open>the body of \<open>for company in companies\<close>\<close>
  "process_company e rid co w m =
     (case scrape_company (web_of_run e rid) co of
        Inl err \<Rightarrow> (Inl err, w, m)
      | Inr found \<Rightarrow>
          if found = [] then (Inr (), w, m)
          else
            let m1 = m\<lparr>companies_scraped := companies_scraped m + 1\<rparr>;
                m2 = m1\<lparr>jobs_scraped := jobs_scraped m1 + length found\<rparr>;
                unique = deduplicate found
            in case save_jobs e unique w m2 of
                 (Inl err, w1, m3) \<Rightarrow> (Inl err, w1, m3)
               | (Inr u, w1, m3) \<Rightarrow>
                   invalidate_missing e co (map application_url unique) w1 m3)"

fun scrape_loop ::
  "env \<Rightarrow> nat \<Rightarrow> Company list \<Rightarrow> world \<Rightarrow> RunMetrics \<Rightarrow> (string + unit) \<times> world \<times> RunMetrics" where
  "scrape_loop e rid [] w m = (Inr (), w, m)"
| "scrape_loop e rid (co # rest) w m =
     (case process_company e rid co w m of
        (Inl err, w1, m1) \<Rightarrow> (Inl err, w1, m1)
      | (Inr u, w1, m1) \<Rightarrow> scrape_loop e rid rest w1 m1)"

definition finish_success ::
  "nat \<Rightarrow> nat \<Rightarrow> string option \<Rightarrow> RunMetrics \<Rightarrow> database \<Rightarrow> database" where
  \<comment> \<open>\<open>UPDATE scraping_runs SET status='success', finished_at=NOW(), details=$2,
      companies_scraped=$3, ... WHERE id=$1\<close>; \<open>doc\<close> is the argument \<open>$2\<close> as encoded\<close>
  "finish_success rid now doc m d =
     d\<lparr>scraping_runs :=
         map (\<lambda>r. if run_id r = rid
                   then r\<lparr>status := Success, finished_at := Some now, details := doc,
                          col_companies_scraped := companies_scraped m,
                          col_jobs_scraped := jobs_scraped m,
                          col_jobs_inserted := jobs_inserted m,
                          col_jobs_updated := jobs_updated m,
                          col_jobs_marked_unavailable := jobs_marked_unavailable m\<rparr>
                   else r)
           (scraping_runs d)\<rparr>"

definition finish_failed :: "nat \<Rightarrow> nat \<Rightarrow> string option \<Rightarrow> database \<Rightarrow> database" where
  \<comment> \<open>\<open>UPDATE scraping_runs SET status='failed', finished_at=NOW(), details=$2 WHERE id=$1\<close>\<close>
  "finish_failed rid now doc d =
     d\<lparr>scraping_runs :=
         map (\<lambda>r. if run_id r = rid
                   then r\<lparr>status := Failed, finished_at := Some now, details := doc\<rparr>
                   else r)
           (scraping_runs d)\<rparr>"

definition pipeline_body :: "env \<Rightarrow> nat \<Rightarrow> world \<Rightarrow> (string + unit) \<times> world \<times> RunMetrics" where
  \<comment> \<open>the \<open>try\<close> block of \<open>run_pipeline\<close>: the result carries the metrics object as it is
      when the block is left, normally or by an exception. The second argument of the last
      statement is \<open>metrics.to_dict()\<close>, a dictionary\<close>
  "pipeline_body e rid w =
     (let found = discover e rid;
          m = new_metrics\<lparr>companies_discovered := length found,
                          companies_with_careers :=
                            length (filter (\<lambda>c. truthy (careers_url c)) found),
                          companies_scraped := 0\<rparr>
      in case upsert_companies e found w of
           (Inl err, w1) \<Rightarrow> (Inl err, w1, m)
         | (Inr n, w1) \<Rightarrow>
             (case load_active_companies e w1 of
                (Inl err, w2) \<Rightarrow> (Inl err, w2, m)
              | (Inr cos, w2) \<Rightarrow>
                  (case scrape_loop e rid cos w2 m of
                     (Inl err, w3, m3) \<Rightarrow> (Inl err, w3, m3)
                   | (Inr u, w3, m3) \<Rightarrow>
                       (case stmt_json e (Py_dict m3)
                               (\<lambda>doc d. (finish_success rid (clock e (ops w3)) doc m3 d, ()))
                               w3 of
                          (Inl err, w4) \<Rightarrow> (Inl err, w4, m3)
                        | (Inr v, w4) \<Rightarrow> (Inr (), w4, m3)))))"

definition run_pipeline :: "env \<Rightarrow> nat \<Rightarrow> world \<Rightarrow> (string + unit) \<times> world" where
  \<comment> \<open>\<open>Inl\<close>: an exception raised inside the \<open>except\<close> block leaves \<open>run_pipeline\<close>. The
      statement of the \<open>except\<close> block has \<open>metrics.to_dict()\<close> as its second argument too\<close>
  "run_pipeline e rid w =
     (case pipeline_body e rid w of
        (Inr u, w1, m) \<Rightarrow> (Inr (), w1)
      | (Inl err, w1, m) \<Rightarrow>
          (let m1 = m\<lparr>errors := errors m @ [err]\<rparr>
           in case stmt_json e (Py_dict m1)
                     (\<lambda>doc d. (finish_failed rid (clock e (ops w1)) doc d, ())) w1 of
                (Inl err2, w2) \<Rightarrow> (Inl err2, w2)
              | (Inr v, w2) \<Rightarrow> (Inr (), w2)))"

definition ensure_run :: "env \<Rightarrow> nat option \<Rightarrow> world \<Rightarrow> (string + unit) \<times> world" where
  "ensure_run e rid w = (case rid of None \<Rightarrow> (Inr (), w) | Some r \<Rightarrow> run_pipeline e r w)"

text \<open>
  The background loop never ends by itself; \<open>background_worker e n\<close> is the loop cut after
  \<open>n\<close> rounds (claim, run, sleep). \<open>Inl\<close> means that an exception left the loop and with it
  the worker task.
\<close>

fun background_worker :: "env \<Rightarrow> nat \<Rightarrow> world \<Rightarrow> (string + unit) \<times> world" where
  "background_worker e 0 w = (Inr (), w)"
| "background_worker e (Suc n) w =
     (case claim_next_run e w of
        (Inl err, w1) \<Rightarrow> (Inl err, w1)
      | (Inr None, w1) \<Rightarrow> background_worker e n w1
      | (Inr (Some rid), w1) \<Rightarrow>
          (case run_pipeline e rid w1 of
             (Inl err, w2) \<Rightarrow> (Inl err, w2)
           | (Inr u, w2) \<Rightarrow> background_worker e n w2))"


subsection \<open>Several workers on one store\<close>

text \<open>
  Each worker process runs the background loop; between two statements of one worker the
  others may run. A worker is at one of these points of its round: about to poll, between
  the \<open>SELECT\<close> and the \<open>UPDATE\<close> of \<open>claim_next_run\<close> with the selected id in hand, holding a
  claimed run and about to run the pipeline, or stopped by an exception. A schedule is the
  order in which the workers take their next step; the pipeline is taken as one step.
\<close>

datatype worker = Polling | Selected nat | Claimed nat | Stopped string

definition worker_step :: "env \<Rightarrow> worker \<Rightarrow> world \<Rightarrow> worker \<times> world" where
  "worker_step e k w =
     (case k of
        Polling \<Rightarrow>
          (case claim_select e w of
             (Inl err, w1) \<Rightarrow> (Stopped err, w1)
           | (Inr None, w1) \<Rightarrow> (Polling, w1)
           | (Inr (Some rid), w1) \<Rightarrow> (Selected rid, w1))
      | Selected rid \<Rightarrow>
          (case claim_update e rid w of
             (Inl err, w1) \<Rightarrow> (Stopped err, w1)
           | (Inr u, w1) \<Rightarrow> (Claimed rid, w1))
      | Claimed rid \<Rightarrow>
          (case run_pipeline e rid w of
             (Inl err, w1) \<Rightarrow> (Stopped err, w1)
           | (Inr u, w1) \<Rightarrow> (Polling, w1))
      | Stopped err \<Rightarrow> (Stopped err, w))"

fun run_schedule :: "env \<Rightarrow> nat list \<Rightarrow> worker list \<Rightarrow> world \<Rightarrow> worker list \<times> world" where
  "run_schedule e [] ks w = (ks, w)"
| "run_schedule e (i # rest) ks w =
     (if i < length ks
      then (case worker_step e (ks ! i) w of (k, w1) \<Rightarrow> run_schedule e rest (ks[i := k]) w1)
      else run_schedule e rest ks w)"

definition status_of :: "nat \<Rightarrow> world \<Rightarrow> run_status list" where
  \<comment> \<open>the status column of the rows with the given id\<close>
  "status_of rid w = map status (filter (\<lambda>r. run_id r = rid) (scraping_runs (db w)))"

subsection \<open>Notions for stating the properties of a run\<close>









section \<open>Concrete inputs\<close>

text \<open>
  An environment in which no statement raises, nothing is locked, discovery finds nothing
  and every request to the web fails; a world with an empty database; and a job.
\<close>

definition quiet_env :: env where
  "quiet_env =
     \<lparr>faults = (\<lambda>n. None), clock = (\<lambda>n. n), locked = (\<lambda>n. {}), discover = (\<lambda>r. []),
      web_of_run = (\<lambda>r. \<lparr>http_get = (\<lambda>u. None), load_page = (\<lambda>u s. None)\<rparr>)\<rparr>"

definition empty_world :: world where
  "empty_world = \<lparr>db = \<lparr>companies = [], jobs = [], scraping_runs = []\<rparr>, ops = 0\<rparr>"

definition backend_job :: scraped_job where
  "backend_job =
     \<lparr>title = ''Backend Engineer'', company = ''Acme'', company_id = 1, location = ''Remote'',
      description = ''Build services'', requirements = [''Python''],
      experience_level = ''mid'', application_url = ''https://acme.example/jobs/1''\<rparr>"

definition one_queued :: world where
  \<comment> \<open>a store whose only content is one queued run, with id 7, enqueued at time 3\<close>
  "one_queued =
     \<lparr>db = \<lparr>companies = [], jobs = [],
             scraping_runs =
               [\<lparr>run_id = 7, status = Queued, started_at = 3, finished_at = None,
                 details = None, col_companies_scraped = 0, col_jobs_scraped = 0,
                 col_jobs_inserted = 0, col_jobs_updated = 0,
                 col_jobs_marked_unavailable = 0\<rparr>]\<rparr>,
      ops = 0\<rparr>"

definition acme :: Company where
  "acme =
     \<lparr>co_id = 1, co_name = ''Acme'', co_domain = Some ''acme.example'',
      co_careers_url = Some ''https://acme.example/api/jobs'',
      co_endpoint_payload = Dict empty_payload,
      co_scraping_config = Dict DEFAULT_SCRAPING_CONFIG\<rparr>"

definition acme_store :: world where
  \<comment> \<open>two available jobs of company 1, at the URLs X and Y, and one of company 2\<close>
  "acme_store =
     \<lparr>db = \<lparr>companies = [],
             jobs =
               [\<lparr>title = ''Backend Engineer'', company = ''Acme'', company_id = 1,
                 location = ''Remote'', description = [], requirements = [],
                 experience_level = ''mid'', application_url = ''https://acme.example/X'',
                 job_id = 1, is_available = True, updated_at = 0\<rparr>,
                \<lparr>title = ''Data Engineer'', company = ''Acme'', company_id = 1,
                 location = ''Remote'', description = [], requirements = [],
                 experience_level = ''mid'', application_url = ''https://acme.example/Y'',
                 job_id = 2, is_available = True, updated_at = 0\<rparr>,
                \<lparr>title = ''Designer'', company = ''Other'', company_id = 2,
                 location = ''Remote'', description = [], requirements = [],
                 experience_level = ''mid'', application_url = ''https://other.example/Z'',
                 job_id = 3, is_available = True, updated_at = 0\<rparr>],
             scraping_runs = []\<rparr>,
      ops = 0\<rparr>"

definition acme_found :: discovered where
  "acme_found =
     \<lparr>name = ''Acme'', domain = Some ''acme.example'',
      careers_url = Some ''https://acme.example/api/jobs'',
      discovery_source = Some ''search_engine''\<rparr>"

definition acme_listing :: api_response where
  \<comment> \<open>three postings; the second has the identity key of the first, the third no apply URL\<close>
  "acme_listing =
     Object (\<lambda>k. if k = ''jobs''
                  then Some
                    [(\<lambda>f. if f = ''title'' then Some ''Backend Engineer''
                           else if f = ''location'' then Some ''Remote''
                           else if f = ''description'' then Some ''We need a senior developer''
                           else if f = ''url'' then Some ''https://acme.example/jobs/1''
                           else None),
                     (\<lambda>f. if f = ''title'' then Some ''backend engineer!''
                           else if f = ''location'' then Some ''remote''
                           else if f = ''url'' then Some ''https://acme.example/jobs/2''
                           else None),
                     (\<lambda>f. if f = ''title'' then Some ''Data Engineer'' else None)]
                  else None)"

definition busy_env :: env where
  \<comment> \<open>discovery finds Acme, and Acme's careers API answers with the listing above\<close>
  "busy_env =
     quiet_env
       \<lparr>discover := (\<lambda>r. [acme_found]),
        web_of_run :=
          (\<lambda>r. \<lparr>http_get = (\<lambda>u. if u = ''https://acme.example/api/jobs''
                                  then Some acme_listing else None),
                 load_page = (\<lambda>u s. None)\<rparr>)\<rparr>"

definition flaky_env :: env where
  \<comment> \<open>the third statement raises, every other one succeeds\<close>
  "flaky_env = quiet_env\<lparr>faults := (\<lambda>n. if n = 2 then Some ''connection lost'' else None)\<rparr>"

definition acme_job1 :: scraped_job where
  "acme_job1 =
     \<lparr>title = ''Backend Engineer'', company = ''Acme'', company_id = 1, location = ''Remote'',
      description = ''We need a senior developer'',
      requirements = [''We need a senior developer''], experience_level = ''senior'',
      application_url = ''https://acme.example/jobs/1''\<rparr>"

definition acme_job2 :: scraped_job where
  "acme_job2 =
     \<lparr>title = ''backend engineer!'', company = ''Acme'', company_id = 1, location = ''remote'',
      description = [], requirements = [], experience_level = ''mid'',
      application_url = ''https://acme.example/jobs/2''\<rparr>"

definition acme_job3 :: scraped_job where
  "acme_job3 =
     \<lparr>title = ''Data Engineer'', company = ''Acme'', company_id = 1, location = ''Remote'',
      description = [], requirements = [], experience_level = ''mid'',
      application_url = ''https://acme.example/api/jobs''\<rparr>"

definition acme_jobs :: "scraped_job list" where
  \<comment> \<open>the postings of the listing above, as the scrape of Acme returns them\<close>
  "acme_jobs = [acme_job1, acme_job2, acme_job3]"

definition acme_batch :: "scraped_job list" where
  \<comment> \<open>the same after deduplication\<close>
  "acme_batch = [acme_job1, acme_job3]"

definition acme_known :: world where
  \<comment> \<open>a store in which Acme is a company already, under another domain and with no careers
      URL\<close>
  "acme_known =
     \<lparr>db = \<lparr>companies =
               [\<lparr>name = ''Acme'', domain = Some ''acme.io'', careers_url = None,
                 discovery_source = Some ''search_engine'', company_pk = 1,
                 careers_endpoint_payload = None, scraping_config_col = None,
                 is_active = True, company_updated_at = 0\<rparr>],
             jobs = [], scraping_runs = []\<rparr>,
      ops = 0\<rparr>"





section \<open>Properties of the text primitives\<close>

lemma of_char_lower_char:
  "(of_char (lower_char c) :: nat) =
     (if (65 \<le> (of_char c :: nat) \<and> (of_char c :: nat) \<le> 90)
         \<or> (192 \<le> (of_char c :: nat) \<and> (of_char c :: nat) \<le> 214)
         \<or> (216 \<le> (of_char c :: nat) \<and> (of_char c :: nat) \<le> 222)
      then of_char c + 32 else of_char c)"
proof -
  have "(of_char (char_of (n + 32) :: char) :: nat) = n + 32" if "n \<le> 222" for n :: nat
    using that by simp
  then show ?thesis by (auto simp: lower_char_def Let_def)
qed

lemma underscore_code: "(c = CHR ''_'') = ((of_char c :: nat) = 95)"
proof -
  have "(of_char c :: nat) = of_char (CHR ''_'') \<longleftrightarrow> c = CHR ''_''"
    by (rule of_char_eq_iff)
  then show ?thesis by simp
qed

lemma is_alnum_lower_char [simp]: "is_alnum (lower_char c) = is_alnum c"
  by (auto simp: is_alnum_def Let_def of_char_lower_char)

lemma is_word_lower_char [simp]: "is_word (lower_char c) = is_word c"
  by (auto simp: is_word_def underscore_code of_char_lower_char is_alnum_def Let_def)

lemma is_space_lower_char [simp]: "is_space (lower_char c) = is_space c"
  by (auto simp: is_space_def Let_def of_char_lower_char)

lemma punct_not_word: "is_punct c \<Longrightarrow> c \<noteq> CHR ''_'' \<Longrightarrow> \<not> is_word c"
  by (auto simp: is_punct_def is_word_def Let_def)

lemma punct_not_space: "is_punct c \<Longrightarrow> \<not> is_space c"
  by (auto simp: is_punct_def is_space_def Let_def)

lemma strip_leading [simp]: "is_space c \<Longrightarrow> strip (c # s) = strip s"
  by (simp add: strip_def)

lemma strip_trailing [simp]: "is_space c \<Longrightarrow> strip (s @ [c]) = strip s"
proof -
  assume c: "is_space c"
  show ?thesis
  proof (cases "\<forall>x\<in>set s. is_space x")
    case True
    then have a: "dropWhile is_space s = []"
      by (simp only: dropWhile_eq_Nil_conv)
    from True c have "\<forall>x\<in>set (s @ [c]). is_space x" by simp
    then have b: "dropWhile is_space (s @ [c]) = []"
      by (simp only: dropWhile_eq_Nil_conv)
    show ?thesis by (simp only: strip_def a b)
  next
    case False
    then have "dropWhile is_space (s @ [c]) = dropWhile is_space s @ [c]"
      by (auto simp: dropWhile_append1)
    then show ?thesis using c by (simp add: strip_def)
  qed
qed

section \<open>Normalizer: the identity key\<close>

lemma normalize_differ_only:
  assumes "differ_only (\<lambda>c. is_punct c \<and> c \<noteq> CHR ''_'') s t"
  shows "normalize s = normalize t"
  using assms
proof (induction rule: differ_only.induct)
  case (letter_case c d xs ys)
  then show ?case by (simp add: normalize_def lower_def)
next
  case (punctuation c xs ys)
  then have "\<not> is_word c" "\<not> is_space c"
    by (auto dest: punct_not_word punct_not_space)
  then show ?case by (simp add: normalize_def lower_def)
next
  case (leading_space c s)
  then show ?case by (simp add: normalize_def lower_def)
next
  case (trailing_space c s)
  then show ?case by (simp add: normalize_def lower_def)
qed simp_all

text \<open>
  C5, as stated, fails. The underscore is punctuation and is not alphanumeric, yet the
  class \<open>\w\<close> keeps it: the titles \<open>a_b\<close> and \<open>ab\<close> differ only in punctuation, the
  normalisation of the first is not what the specification's wording gives, and the two
  identity keys differ. And lower-casing does not undo every difference of case: the
  upper-case form of the title \<open>stra\<close>, sharp s (code point 223), \<open>e\<close> is \<open>STRASSE\<close>, the
  lower-case forms of the two differ, and so do the identity keys.
\<close>

theorem C5_underscore_counterexample:
  "differ_only is_punct ''a_b'' ''ab''
   \<and> normalize ''a_b'' \<noteq> normalize_spec ''a_b''
   \<and> job_key \<lparr>title = ''a_b'', company = ''Acme'', company_id = 1, location = ''Remote'',
         description = '''', requirements = [], experience_level = ''mid'',
         application_url = ''https://acme.example/jobs/1''\<rparr>
     \<noteq> job_key \<lparr>title = ''ab'', company = ''Acme'', company_id = 1, location = ''Remote'',
         description = '''', requirements = [], experience_level = ''mid'',
         application_url = ''https://acme.example/jobs/1''\<rparr>
   \<and> job_key \<lparr>title = ''stra'' @ [CHR 0xDF] @ ''e'', company = ''Acme'', company_id = 1,
         location = ''Remote'', description = '''', requirements = [],
         experience_level = ''mid'', application_url = ''https://acme.example/jobs/1''\<rparr>
     \<noteq> job_key \<lparr>title = ''STRASSE'', company = ''Acme'', company_id = 1,
         location = ''Remote'', description = '''', requirements = [],
         experience_level = ''mid'', application_url = ''https://acme.example/jobs/1''\<rparr>"
proof -
  have "is_punct CHR ''_''"
    by (simp add: is_punct_def is_alnum_def)
  from differ_only.punctuation [of is_punct "CHR ''_''" "''a''" "''b''", OF this]
  have "differ_only is_punct ''ab'' ''a_b''" by simp
  then have 1: "differ_only is_punct ''a_b'' ''ab''" by (rule differ_only.flip)
  have 2: "normalize ''a_b'' \<noteq> normalize_spec ''a_b''"
    by code_simp
  have 3: "job_key \<lparr>title = ''a_b'', company = ''Acme'', company_id = 1, location = ''Remote'',
         description = '''', requirements = [], experience_level = ''mid'',
         application_url = ''https://acme.example/jobs/1''\<rparr>
     \<noteq> job_key \<lparr>title = ''ab'', company = ''Acme'', company_id = 1, location = ''Remote'',
         description = '''', requirements = [], experience_level = ''mid'',
         application_url = ''https://acme.example/jobs/1''\<rparr>"
    by code_simp
  have 4: "job_key \<lparr>title = ''stra'' @ [CHR 0xDF] @ ''e'', company = ''Acme'', company_id = 1,
         location = ''Remote'', description = '''', requirements = [],
         experience_level = ''mid'', application_url = ''https://acme.example/jobs/1''\<rparr>
     \<noteq> job_key \<lparr>title = ''STRASSE'', company = ''Acme'', company_id = 1,
         location = ''Remote'', description = '''', requirements = [],
         experience_level = ''mid'', application_url = ''https://acme.example/jobs/1''\<rparr>"
    by code_simp
  from 1 2 3 4 show ?thesis by (intro conjI)
qed

text \<open>
  C5, amended: the identity key is the pipe-joined normalisation of title, company and
  location, where normalisation lower-cases, strips every character that is not
  alphanumeric, underscore or whitespace, and trims; two jobs whose title, company and
  location are ASCII text and differ only in case, in punctuation other than the
  underscore, or in surrounding whitespace have equal identity keys.
\<close>

theorem C5_identity_key:
  "job_key a = normalize (title a) @ ''|'' @ normalize (company a) @ ''|'' @ normalize (location a)
   \<and> normalize s = strip (filter (\<lambda>c. is_alnum c \<or> c = CHR ''_'' \<or> is_space c) (map lower_char s))
   \<and> (ascii_text (title a) \<and> ascii_text (company a) \<and> ascii_text (location a)
        \<and> ascii_text (title b) \<and> ascii_text (company b) \<and> ascii_text (location b)
        \<and> differ_only (\<lambda>c. is_punct c \<and> c \<noteq> CHR ''_'') (title a) (title b)
        \<and> differ_only (\<lambda>c. is_punct c \<and> c \<noteq> CHR ''_'') (company a) (company b)
        \<and> differ_only (\<lambda>c. is_punct c \<and> c \<noteq> CHR ''_'') (location a) (location b)
        \<longrightarrow> job_key a = job_key b)"
proof (intro conjI impI)
  show "job_key a = normalize (title a) @ ''|'' @ normalize (company a) @ ''|'' @ normalize (location a)"
    by (simp add: job_key_def)
next
  have "(\<lambda>c. \<not> (\<not> is_word c \<and> \<not> is_space c)) = (\<lambda>c. is_alnum c \<or> c = CHR ''_'' \<or> is_space c)"
    by (auto simp: is_word_def)
  then show "normalize s = strip (filter (\<lambda>c. is_alnum c \<or> c = CHR ''_'' \<or> is_space c) (map lower_char s))"
    by (simp add: normalize_def lower_def)
next
  assume "ascii_text (title a) \<and> ascii_text (company a) \<and> ascii_text (location a)
        \<and> ascii_text (title b) \<and> ascii_text (company b) \<and> ascii_text (location b)
        \<and> differ_only (\<lambda>c. is_punct c \<and> c \<noteq> CHR ''_'') (title a) (title b)
        \<and> differ_only (\<lambda>c. is_punct c \<and> c \<noteq> CHR ''_'') (company a) (company b)
        \<and> differ_only (\<lambda>c. is_punct c \<and> c \<noteq> CHR ''_'') (location a) (location b)"
  then have "normalize (title a) = normalize (title b)" "normalize (company a) = normalize (company b)"
    "normalize (location a) = normalize (location b)"
    by (simp_all add: normalize_differ_only)
  then show "job_key a = job_key b" by (simp add: job_key_def)
qed

theorem C5_identity_key_witness:
  "ascii_text ''Dev!'' \<and> ascii_text '' dev'' \<and> ascii_text ''Acme'' \<and> ascii_text ''Remote''
   \<and> differ_only (\<lambda>c. is_punct c \<and> c \<noteq> CHR ''_'') ''Dev!'' '' dev''
   \<and> job_key \<lparr>title = ''Dev!'', company = ''Acme'', company_id = 1, location = ''Remote'',
         description = '''', requirements = [], experience_level = ''mid'',
         application_url = ''https://acme.example/jobs/1''\<rparr>
     = job_key \<lparr>title = '' dev'', company = ''Acme'', company_id = 1, location = ''Remote'',
         description = ''x'', requirements = [], experience_level = ''mid'',
         application_url = ''https://acme.example/jobs/2''\<rparr>"
proof -
  let ?P = "\<lambda>c. is_punct c \<and> c \<noteq> CHR ''_''"
  have "lower_char CHR ''D'' = lower_char CHR ''d''"
    by code_simp
  from differ_only.letter_case [of "CHR ''D''" "CHR ''d''" ?P "[]" "''ev!''", OF this]
  have 1: "differ_only ?P ''Dev!'' ''dev!''" by simp
  have "?P CHR ''!''"
    by (simp add: is_punct_def is_alnum_def)
  from differ_only.punctuation [of ?P "CHR ''!''" "''dev''" "[]", OF this]
  have "differ_only ?P ''dev'' ''dev!''" by simp
  then have 2: "differ_only ?P ''dev!'' ''dev''" by (rule differ_only.flip)
  have "is_space CHR '' ''"
    by (simp add: is_space_def)
  from differ_only.leading_space [of "CHR '' ''" ?P "''dev''", OF this]
  have 3: "differ_only ?P ''dev'' '' dev''" by simp
  have t: "differ_only ?P ''Dev!'' '' dev''"
    by (rule differ_only.chain [OF 1 differ_only.chain [OF 2 3]])
  let ?a = "\<lparr>title = ''Dev!'', company = ''Acme'', company_id = 1, location = ''Remote'',
         description = '''', requirements = [], experience_level = ''mid'',
         application_url = ''https://acme.example/jobs/1''\<rparr>"
  let ?b = "\<lparr>title = '' dev'', company = ''Acme'', company_id = 1, location = ''Remote'',
         description = ''x'', requirements = [], experience_level = ''mid'',
         application_url = ''https://acme.example/jobs/2''\<rparr>"
  have a1: "ascii_text ''Dev!''" by code_simp
  have a2: "ascii_text '' dev''" by code_simp
  have a3: "ascii_text ''Acme''" by code_simp
  have a4: "ascii_text ''Remote''" by code_simp
  have same: "differ_only ?P ''Acme'' ''Acme''" "differ_only ?P ''Remote'' ''Remote''"
    by (rule differ_only.same)+
  have hyp: "ascii_text (title ?a) \<and> ascii_text (company ?a) \<and> ascii_text (location ?a)
        \<and> ascii_text (title ?b) \<and> ascii_text (company ?b) \<and> ascii_text (location ?b)
        \<and> differ_only ?P (title ?a) (title ?b)
        \<and> differ_only ?P (company ?a) (company ?b)
        \<and> differ_only ?P (location ?a) (location ?b)"
    using a1 a2 a3 a4 t same by simp
  have "job_key ?a = job_key ?b"
    by (rule mp [OF conjunct2 [OF conjunct2 [OF C5_identity_key]] hyp])
  with a1 a2 a3 a4 t show ?thesis by (intro conjI)
qed

section \<open>Scrape adapter: experience level\<close>

lemma first_mapping_match_first:
  "\<forall>(k', v') \<in> set ps. \<not> sublist k' txt \<Longrightarrow> sublist k txt
     \<Longrightarrow> first_mapping_match (ps @ (k, v) # ss) txt = Some v"
  by (induction ps) auto

lemma first_mapping_match_none:
  "(first_mapping_match m txt = None) = (\<forall>(k, v) \<in> set m. \<not> sublist k txt)"
  by (induction m) (auto split: if_splits)

lemma any_in_set: "any_in ts txt = (\<exists>t \<in> set ts. sublist t txt)"
  by (simp add: any_in_def list_ex_iff)

lemma default_mapping_entry:
  "sublist ''entry'' txt
     \<Longrightarrow> first_mapping_match default_experienceLevelMapping txt = Some ''entry''"
  by (simp add: default_experienceLevelMapping_def)

text \<open>
  C8: the level is decided by the first rule that matches the lower-cased text
  \<open>title + " " + description\<close>, in this order: the first entry of the mapping (in its
  iteration order) whose keyword is a substring; else \<open>entry\<close> for junior/entry/graduate;
  else \<open>senior\<close> for senior/sr.; else \<open>lead\<close> for lead/principal/staff; else \<open>mid\<close>.
  A text holding both \<open>senior\<close> and \<open>entry\<close> is \<open>entry\<close>, under the default mapping (whose
  keys \<open>junior\<close> and \<open>entry\<close> come first and both give \<open>entry\<close>) and under the built-in
  keyword sets alike.
\<close>

theorem C8_determine_level:
  "(mapping = ps @ (k, v) # ss \<and> sublist k (lower (ttl @ '' '' @ desc))
      \<and> (\<forall>(k', v') \<in> set ps. \<not> sublist k' (lower (ttl @ '' '' @ desc)))
     \<longrightarrow> determine_level ttl desc mapping = v)
   \<and> ((\<forall>(k', v') \<in> set mapping. \<not> sublist k' (lower (ttl @ '' '' @ desc)))
     \<longrightarrow> determine_level ttl desc mapping =
        (if \<exists>w \<in> {''junior'', ''entry'', ''graduate''}. sublist w (lower (ttl @ '' '' @ desc))
           then ''entry''
         else if \<exists>w \<in> {''senior'', ''sr.''}. sublist w (lower (ttl @ '' '' @ desc))
           then ''senior''
         else if \<exists>w \<in> {''lead'', ''principal'', ''staff''}. sublist w (lower (ttl @ '' '' @ desc))
           then ''lead''
         else ''mid''))
   \<and> (sublist ''senior'' (lower (ttl @ '' '' @ desc)) \<and> sublist ''entry'' (lower (ttl @ '' '' @ desc))
     \<longrightarrow> determine_level ttl desc default_experienceLevelMapping = ''entry''
         \<and> determine_level ttl desc [] = ''entry'')"
proof (intro conjI impI)
  assume "mapping = ps @ (k, v) # ss \<and> sublist k (lower (ttl @ '' '' @ desc))
      \<and> (\<forall>(k', v') \<in> set ps. \<not> sublist k' (lower (ttl @ '' '' @ desc)))"
  then show "determine_level ttl desc mapping = v"
    by (simp add: determine_level_def first_mapping_match_first)
next
  assume "\<forall>(k', v') \<in> set mapping. \<not> sublist k' (lower (ttl @ '' '' @ desc))"
  then have "first_mapping_match mapping (lower (ttl @ '' '' @ desc)) = None"
    by (simp only: first_mapping_match_none)
  then show "determine_level ttl desc mapping =
        (if \<exists>w \<in> {''junior'', ''entry'', ''graduate''}. sublist w (lower (ttl @ '' '' @ desc))
           then ''entry''
         else if \<exists>w \<in> {''senior'', ''sr.''}. sublist w (lower (ttl @ '' '' @ desc))
           then ''senior''
         else if \<exists>w \<in> {''lead'', ''principal'', ''staff''}. sublist w (lower (ttl @ '' '' @ desc))
           then ''lead''
         else ''mid'')"
    by (simp add: determine_level_def any_in_set)
next
  assume a: "sublist ''senior'' (lower (ttl @ '' '' @ desc))
    \<and> sublist ''entry'' (lower (ttl @ '' '' @ desc))"
  then show "determine_level ttl desc default_experienceLevelMapping = ''entry''"
    by (simp add: determine_level_def default_mapping_entry)
  from a show "determine_level ttl desc [] = ''entry''"
    by (simp add: determine_level_def any_in_set)
qed

theorem C8_determine_level_witness:
  "sublist ''staff'' (lower (''Staff Engineer'' @ '' '' @ ''backend''))
   \<and> determine_level ''Staff Engineer'' ''backend'' [(''qa'', ''mid''), (''staff'', ''lead'')] = ''lead''
   \<and> determine_level ''Sr. Developer'' ''backend'' [(''qa'', ''mid'')] = ''senior''
   \<and> sublist ''senior'' (lower (''Senior-entry-level hybrid'' @ '' '' @ ''role''))
   \<and> sublist ''entry'' (lower (''Senior-entry-level hybrid'' @ '' '' @ ''role''))
   \<and> determine_level ''Senior-entry-level hybrid'' ''role'' default_experienceLevelMapping = ''entry''"
proof -
  let ?t1 = "lower (''Staff Engineer'' @ '' '' @ ''backend'')"
  have s1: "sublist ''staff'' ?t1" by code_simp
  have n1: "\<not> sublist ''qa'' ?t1" by code_simp
  have m1: "[(''qa'', ''mid''), (''staff'', ''lead'')] = [(''qa'', ''mid'')] @ (''staff'', ''lead'') # []"
    by simp
  from n1 have q1: "\<forall>(k', v') \<in> set [(''qa'', ''mid'')]. \<not> sublist k' ?t1" by simp
  have r1: "determine_level ''Staff Engineer'' ''backend'' [(''qa'', ''mid''), (''staff'', ''lead'')] = ''lead''"
    by (rule mp [OF conjunct1 [OF C8_determine_level] conjI [OF m1 conjI [OF s1 q1]]])
  let ?t2 = "lower (''Sr. Developer'' @ '' '' @ ''backend'')"
  have n2: "\<not> sublist ''qa'' ?t2" "\<not> sublist ''junior'' ?t2" "\<not> sublist ''entry'' ?t2"
    "\<not> sublist ''graduate'' ?t2" "\<not> sublist ''senior'' ?t2" "sublist ''sr.'' ?t2"
    by code_simp+
  from n2(1) have q2: "\<forall>(k', v') \<in> set [(''qa'', ''mid'')]. \<not> sublist k' ?t2" by simp
  have "determine_level ''Sr. Developer'' ''backend'' [(''qa'', ''mid'')] =
        (if \<exists>w \<in> {''junior'', ''entry'', ''graduate''}. sublist w ?t2 then ''entry''
         else if \<exists>w \<in> {''senior'', ''sr.''}. sublist w ?t2 then ''senior''
         else if \<exists>w \<in> {''lead'', ''principal'', ''staff''}. sublist w ?t2 then ''lead''
         else ''mid'')"
    by (rule mp [OF conjunct1 [OF conjunct2 [OF C8_determine_level]] q2])
  then have r2: "determine_level ''Sr. Developer'' ''backend'' [(''qa'', ''mid'')] = ''senior''"
    using n2 by simp
  let ?t3 = "lower (''Senior-entry-level hybrid'' @ '' '' @ ''role'')"
  have s3: "sublist ''senior'' ?t3" by code_simp
  have e3: "sublist ''entry'' ?t3" by code_simp
  have r3: "determine_level ''Senior-entry-level hybrid'' ''role'' default_experienceLevelMapping = ''entry''"
    by (rule conjunct1 [OF mp [OF conjunct2 [OF conjunct2 [OF C8_determine_level]] conjI [OF s3 e3]]])
  from s1 r1 r2 s3 e3 r3 show ?thesis by blast
qed

section \<open>Scrape adapter: the jobs it produces\<close>

lemma or_str_nonempty: "b \<noteq> [] \<Longrightarrow> or_str a b \<noteq> []"
  by (simp add: or_str_def split: option.splits)

lemma parse_api_job_application_url:
  "parse_api_job item co url = Some j \<Longrightarrow> url \<noteq> [] \<Longrightarrow> application_url j \<noteq> []"
  by (auto simp: parse_api_job_def Let_def or_str_nonempty split: option.splits if_splits)

lemma parse_element_application_url:
  "parse_element selectors mapping co url el = Some j \<Longrightarrow> url \<noteq> [] \<Longrightarrow> application_url j \<noteq> []"
  by (auto simp: parse_element_def Let_def or_str_nonempty split: option.splits if_splits)

lemma map_filter_mem: "y \<in> set (List.map_filter f xs) \<Longrightarrow> \<exists>x \<in> set xs. f x = Some y"
  by (auto simp: List.map_filter_def)

lemma scrape_dispatch_application_url:
  "j \<in> set (scrape_dispatch net co payload) \<Longrightarrow> application_url j \<noteq> []"
proof -
  assume j: "j \<in> set (scrape_dispatch net co payload)"
  let ?url = "or_str (co_careers_url co) []"
  have t: "truthy (co_careers_url co)"
  proof (rule ccontr)
    assume "\<not> truthy (co_careers_url co)"
    with j show False by (simp add: scrape_dispatch_def Let_def)
  qed
  then have url: "?url \<noteq> []"
    by (auto simp: truthy_def or_str_def split: option.splits)
  have "scrape_dispatch net co payload = (case scrape_api net co ?url of None \<Rightarrow> [] | Some found \<Rightarrow> found)
      \<or> scrape_dispatch net co payload = (case scrape_web net co ?url of None \<Rightarrow> [] | Some found \<Rightarrow> found)"
    using t by (simp add: scrape_dispatch_def Let_def)
  with j have "j \<in> set (case scrape_api net co ?url of None \<Rightarrow> [] | Some found \<Rightarrow> found)
      \<or> j \<in> set (case scrape_web net co ?url of None \<Rightarrow> [] | Some found \<Rightarrow> found)"
    by auto
  then show ?thesis
  proof
    assume "j \<in> set (case scrape_api net co ?url of None \<Rightarrow> [] | Some found \<Rightarrow> found)"
    then obtain item where "parse_api_job item co ?url = Some j"
      by (auto simp: scrape_api_def split: option.splits dest: map_filter_mem)
    then show ?thesis using url by (rule parse_api_job_application_url)
  next
    assume "j \<in> set (case scrape_web net co ?url of None \<Rightarrow> [] | Some found \<Rightarrow> found)"
    then obtain selectors mapping el where "parse_element selectors mapping co ?url el = Some j"
      by (auto simp: scrape_web_def Let_def split: option.splits entry.splits
          dest: map_filter_mem)
    then show ?thesis using url by (rule parse_element_application_url)
  qed
qed

lemma scrape_company_application_url:
  "scrape_company net co = Inr found \<Longrightarrow> j \<in> set found \<Longrightarrow> application_url j \<noteq> []"
  by (auto simp: scrape_company_def scrape_dispatch_application_url
      split: dict_or_str.splits if_splits)

text \<open>
  C9: the title test comes before the trimming. An API item whose title is a single blank,
  or a page element whose title text is only whitespace, passes the test \<open>if not title\<close>
  and is stored with \<open>title.strip()\<close>, the empty string. Nothing else in the item gives an
  apply URL, so the application URL is the company's careers URL.
\<close>

theorem C9_blank_title:
  "scrape_company
     \<lparr>http_get = (\<lambda>u. Some (Array [\<lambda>k. if k = ''title'' then Some '' '' else None])),
      load_page = (\<lambda>u s. None)\<rparr>
     \<lparr>co_id = 1, co_name = ''Acme'', co_domain = Some ''acme.example'',
      co_careers_url = Some ''https://acme.example/api/jobs'',
      co_endpoint_payload = Dict empty_payload,
      co_scraping_config = Dict DEFAULT_SCRAPING_CONFIG\<rparr>
   = Inr [\<lparr>title = '''', company = ''Acme'', company_id = 1, location = ''Remote'',
       description = '''', requirements = [], experience_level = ''mid'',
       application_url = ''https://acme.example/api/jobs''\<rparr>]
   \<and> scrape_company
     \<lparr>http_get = (\<lambda>u. None),
      load_page = (\<lambda>u s. Some [\<lparr>el_text = (\<lambda>sel. if sel = ''.title, .job-title, h2, h3, .position-title, .role-title''
                                               then [CHR 0x0A, CHR '' ''] else []),
                                 el_href = (\<lambda>sel. None)\<rparr>])\<rparr>
     \<lparr>co_id = 1, co_name = ''Acme'', co_domain = Some ''acme.example'',
      co_careers_url = Some ''https://acme.example/careers'',
      co_endpoint_payload = Dict empty_payload,
      co_scraping_config = Dict DEFAULT_SCRAPING_CONFIG\<rparr>
   = Inr [\<lparr>title = '''', company = ''Acme'', company_id = 1, location = ''Not specified'',
       description = '''', requirements = [], experience_level = ''mid'',
       application_url = ''https://acme.example/careers''\<rparr>]"
  by code_simp

section \<open>The scrape of the example company\<close>

lemma acme_scrape: "scrape_company (web_of_run busy_env 7) acme = Inr acme_jobs"
  by code_simp

lemma acme_dedup: "deduplicate acme_jobs = acme_batch"
  by code_simp

lemma acme_jobs_nonempty: "acme_jobs \<noteq> []"
  by (simp add: acme_jobs_def)







section \<open>Statements\<close>

lemma stmt_Inr:
  "stmt e f w = (Inr a, w1) \<Longrightarrow>
     faults e (ops w) = None \<and> w1 = \<lparr>db = fst (f (db w)), ops = Suc (ops w)\<rparr> \<and> a = snd (f (db w))"
  by (auto simp: stmt_def split: option.splits prod.splits)

lemma stmt_ok:
  "faults e (ops w) = None \<Longrightarrow>
     stmt e f w = (Inr (snd (f (db w))), \<lparr>db = fst (f (db w)), ops = Suc (ops w)\<rparr>)"
  by (auto simp: stmt_def split: option.splits prod.splits)

lemma stmt_json_dict:
  "\<exists>err. stmt_json e (Py_dict x) f w = (Inl err, w\<lparr>ops := Suc (ops w)\<rparr>)"
  by (simp add: stmt_json_def encode_json_def split: option.splits)

lemma stmt_json_none:
  "faults e (ops w) = None \<Longrightarrow>
     stmt_json e Py_none f w = (Inr (snd (f None (db w))), \<lparr>db = fst (f None (db w)), ops = Suc (ops w)\<rparr>)"
  by (simp add: stmt_json_def encode_json_def split: prod.splits)


section \<open>Reconciler: the job upsert\<close>

lemma save_jobs_single:
  "save_jobs e [j] w m = (Inr (), w1, m1) \<Longrightarrow>
     db w1 = fst (upsert_job j (clock e (ops w)) (db w))
     \<and> m1 = (if snd (upsert_job j (clock e (ops w)) (db w))
             then m\<lparr>jobs_inserted := jobs_inserted m + 1\<rparr>
             else m\<lparr>jobs_updated := jobs_updated m + 1\<rparr>)
     \<and> ops w1 = Suc (ops w)"
  by (auto simp: save_jobs_def stmt_def split: option.splits prod.splits sum.splits if_splits)

lemma upsert_job_absent:
  "application_url j \<notin> application_url ` set (jobs d) \<Longrightarrow>
     upsert_job j now d =
       (d\<lparr>jobs := jobs d @
            [\<lparr>title = title j, company = company j, company_id = company_id j,
              location = location j, description = description j,
              requirements = requirements j, experience_level = experience_level j,
              application_url = application_url j,
              job_id = fresh_key (map job_id (jobs d)), is_available = True,
              updated_at = now\<rparr>]\<rparr>, True)"
  by (force simp: upsert_job_def image_iff)

lemma upsert_job_present:
  "application_url j \<in> application_url ` set (jobs d) \<Longrightarrow>
     upsert_job j now d =
       (d\<lparr>jobs := map (\<lambda>r. if application_url r = application_url j
                          then r\<lparr>title := title j, location := location j,
                                 description := description j,
                                 requirements := requirements j,
                                 experience_level := experience_level j,
                                 is_available := True, updated_at := now\<rparr>
                          else r) (jobs d)\<rparr>, False)"
  by (force simp: upsert_job_def image_iff)

lemma upsert_job_urls:
  "map application_url (jobs (fst (upsert_job j now d))) =
     (if application_url j \<in> application_url ` set (jobs d) then map application_url (jobs d)
      else map application_url (jobs d) @ [application_url j])"
  by (force simp: upsert_job_def image_iff)

lemma trunc: "scraped_job.truncate \<lparr>title = title j, company = company j, company_id = company_id j,
              location = location j, description = description j,
              requirements = requirements j, experience_level = experience_level j,
              application_url = application_url j,
              job_id = k, is_available = True,
              updated_at = now\<rparr> = (j::scraped_job)"
  by (simp add: scraped_job.truncate_def)

lemma count_unique:
  "distinct (map f xs) \<Longrightarrow> x \<in> f ` set xs \<Longrightarrow> length (filter (\<lambda>r. f r = x) xs) = 1"
proof (induction xs)
  case Nil
  then show ?case by simp
next
  case (Cons a xs)
  show ?case
  proof (cases "f a = x")
    case True
    with Cons.prems have "x \<notin> f ` set xs" by auto
    then have "filter (\<lambda>r. f r = x) xs = []" by (auto simp: filter_empty_conv)
    with True show ?thesis by simp
  next
    case False
    with Cons show ?thesis by auto
  qed
qed

lemma upsert_job_distinct:
  "distinct (map application_url (jobs d))
     \<Longrightarrow> distinct (map application_url (jobs (fst (upsert_job j now d))))"
  by (simp add: upsert_job_urls)

lemma upsert_job_url_present:
  "application_url j \<in> application_url ` set (jobs (fst (upsert_job j now d)))"
proof -
  have "application_url j \<in> set (map application_url (jobs (fst (upsert_job j now d))))"
    by (simp only: upsert_job_urls) auto
  then show ?thesis by simp
qed

text \<open>
  C3: the job upsert is keyed by \<open>application_url\<close>. A batch of one job that is persisted
  keeps the application URLs of the table distinct; when the URL was absent it appends one
  row that carries the job and is available, and counts one insert; when the URL was
  present it rewrites title, location, description, requirements and experience level of
  the row with that URL, makes it available, and counts one update. Persisting the same
  job again leaves exactly one row with that URL, available and with the job's fields, adds
  no row, and counts one update and no insert.
\<close>

theorem C3_job_upsert:
  assumes first: "save_jobs e [j] w m = (Inr (), w1, m1)"
    and inv: "distinct (map application_url (jobs (db w)))"
  shows "distinct (map application_url (jobs (db w1)))
    \<and> (application_url j \<notin> application_url ` set (jobs (db w)) \<longrightarrow>
         (\<exists>row. jobs (db w1) = jobs (db w) @ [row] \<and> scraped_job.truncate row = j
            \<and> is_available row)
         \<and> jobs_inserted m1 = jobs_inserted m + 1 \<and> jobs_updated m1 = jobs_updated m)
    \<and> (application_url j \<in> application_url ` set (jobs (db w)) \<longrightarrow>
         jobs (db w1) =
           map (\<lambda>r. if application_url r = application_url j
                     then r\<lparr>title := title j, location := location j,
                            description := description j, requirements := requirements j,
                            experience_level := experience_level j,
                            is_available := True, updated_at := clock e (ops w)\<rparr>
                     else r) (jobs (db w))
         \<and> jobs_updated m1 = jobs_updated m + 1 \<and> jobs_inserted m1 = jobs_inserted m)
    \<and> (save_jobs e [j] w1 m1 = (Inr (), w2, m2) \<longrightarrow>
         length (filter (\<lambda>r. application_url r = application_url j) (jobs (db w2))) = 1
         \<and> (\<forall>r \<in> set (jobs (db w2)). application_url r = application_url j \<longrightarrow>
               is_available r \<and> title r = title j \<and> location r = location j
               \<and> description r = description j \<and> requirements r = requirements j
               \<and> experience_level r = experience_level j)
         \<and> length (jobs (db w2)) = length (jobs (db w1))
         \<and> jobs_inserted m2 = jobs_inserted m1 \<and> jobs_updated m2 = jobs_updated m1 + 1)"
proof -
  let ?now = "clock e (ops w)"
  from save_jobs_single [OF first]
  have d1: "db w1 = fst (upsert_job j ?now (db w))"
    and m1: "m1 = (if snd (upsert_job j ?now (db w))
                   then m\<lparr>jobs_inserted := jobs_inserted m + 1\<rparr>
                   else m\<lparr>jobs_updated := jobs_updated m + 1\<rparr>)"
    by simp_all
  have a: "distinct (map application_url (jobs (db w1)))"
    unfolding d1 using inv by (rule upsert_job_distinct)
  have b: "application_url j \<notin> application_url ` set (jobs (db w)) \<longrightarrow>
         (\<exists>row. jobs (db w1) = jobs (db w) @ [row] \<and> scraped_job.truncate row = j
            \<and> is_available row)
         \<and> jobs_inserted m1 = jobs_inserted m + 1 \<and> jobs_updated m1 = jobs_updated m"
    by (simp add: d1 m1 upsert_job_absent scraped_job.truncate_def)
  have c: "application_url j \<in> application_url ` set (jobs (db w)) \<longrightarrow>
         jobs (db w1) =
           map (\<lambda>r. if application_url r = application_url j
                     then r\<lparr>title := title j, location := location j,
                            description := description j, requirements := requirements j,
                            experience_level := experience_level j,
                            is_available := True, updated_at := clock e (ops w)\<rparr>
                     else r) (jobs (db w))
         \<and> jobs_updated m1 = jobs_updated m + 1 \<and> jobs_inserted m1 = jobs_inserted m"
    by (simp add: d1 m1 upsert_job_present)
  have p1: "application_url j \<in> application_url ` set (jobs (db w1))"
    unfolding d1 by (rule upsert_job_url_present)
  have d: "save_jobs e [j] w1 m1 = (Inr (), w2, m2) \<longrightarrow>
         length (filter (\<lambda>r. application_url r = application_url j) (jobs (db w2))) = 1
         \<and> (\<forall>r \<in> set (jobs (db w2)). application_url r = application_url j \<longrightarrow>
               is_available r \<and> title r = title j \<and> location r = location j
               \<and> description r = description j \<and> requirements r = requirements j
               \<and> experience_level r = experience_level j)
         \<and> length (jobs (db w2)) = length (jobs (db w1))
         \<and> jobs_inserted m2 = jobs_inserted m1 \<and> jobs_updated m2 = jobs_updated m1 + 1"
  proof
    assume second: "save_jobs e [j] w1 m1 = (Inr (), w2, m2)"
    let ?now1 = "clock e (ops w1)"
    from save_jobs_single [OF second]
    have d2: "db w2 = fst (upsert_job j ?now1 (db w1))"
      and m2: "m2 = (if snd (upsert_job j ?now1 (db w1))
                   then m1\<lparr>jobs_inserted := jobs_inserted m1 + 1\<rparr>
                   else m1\<lparr>jobs_updated := jobs_updated m1 + 1\<rparr>)"
      by simp_all
    have u: "upsert_job j ?now1 (db w1) =
       ((db w1)\<lparr>jobs := map (\<lambda>r. if application_url r = application_url j
                          then r\<lparr>title := title j, location := location j,
                                 description := description j,
                                 requirements := requirements j,
                                 experience_level := experience_level j,
                                 is_available := True, updated_at := ?now1\<rparr>
                          else r) (jobs (db w1))\<rparr>, False)"
      using p1 by (rule upsert_job_present)
    have "distinct (map application_url (jobs (db w2)))"
      unfolding d2 using a by (rule upsert_job_distinct)
    moreover have "application_url j \<in> application_url ` set (jobs (db w2))"
      unfolding d2 by (rule upsert_job_url_present)
    ultimately have one: "length (filter (\<lambda>r. application_url r = application_url j) (jobs (db w2))) = 1"
      by (rule count_unique)
    have rows: "\<forall>r \<in> set (jobs (db w2)). application_url r = application_url j \<longrightarrow>
               is_available r \<and> title r = title j \<and> location r = location j
               \<and> description r = description j \<and> requirements r = requirements j
               \<and> experience_level r = experience_level j"
      by (auto simp: d2 u)
    have len: "length (jobs (db w2)) = length (jobs (db w1))"
      by (simp add: d2 u)
    have cnt: "jobs_inserted m2 = jobs_inserted m1 \<and> jobs_updated m2 = jobs_updated m1 + 1"
      by (simp add: m2 u)
    from one rows len cnt show "length (filter (\<lambda>r. application_url r = application_url j) (jobs (db w2))) = 1
         \<and> (\<forall>r \<in> set (jobs (db w2)). application_url r = application_url j \<longrightarrow>
               is_available r \<and> title r = title j \<and> location r = location j
               \<and> description r = description j \<and> requirements r = requirements j
               \<and> experience_level r = experience_level j)
         \<and> length (jobs (db w2)) = length (jobs (db w1))
         \<and> jobs_inserted m2 = jobs_inserted m1 \<and> jobs_updated m2 = jobs_updated m1 + 1"
      by blast
  qed
  from a b c d show ?thesis by blast
qed


theorem C3_job_upsert_witness:
  "fst (save_jobs quiet_env [backend_job] empty_world new_metrics) = Inr ()
   \<and> distinct (map application_url (jobs (db empty_world)))
   \<and> distinct (map application_url
        (jobs (db (fst (snd (save_jobs quiet_env [backend_job] empty_world new_metrics))))))
   \<and> jobs_inserted (snd (snd (save_jobs quiet_env [backend_job] empty_world new_metrics))) = 1
   \<and> jobs_updated
        (snd (snd (save_jobs quiet_env [backend_job]
           (fst (snd (save_jobs quiet_env [backend_job] empty_world new_metrics)))
           (snd (snd (save_jobs quiet_env [backend_job] empty_world new_metrics)))))) = 1"
proof -
  let ?r1 = "save_jobs quiet_env [backend_job] empty_world new_metrics"
  let ?w1 = "fst (snd ?r1)"
  let ?m1 = "snd (snd ?r1)"
  let ?r2 = "save_jobs quiet_env [backend_job] ?w1 ?m1"
  have f1: "fst ?r1 = Inr ()" by code_simp
  have f2: "fst ?r2 = Inr ()" by code_simp
  have first: "?r1 = (Inr (), ?w1, ?m1)"
    using f1 by (metis prod.collapse)
  have second: "?r2 = (Inr (), fst (snd ?r2), snd (snd ?r2))"
    using f2 by (metis prod.collapse)
  have inv: "distinct (map application_url (jobs (db empty_world)))"
    by (simp add: empty_world_def)
  have absent: "application_url backend_job \<notin> application_url ` set (jobs (db empty_world))"
    by (simp add: empty_world_def)
  note c3 = C3_job_upsert [OF first inv, where ?w2.0 = "fst (snd ?r2)" and ?m2.0 = "snd (snd ?r2)"]
  have a: "distinct (map application_url (jobs (db ?w1)))"
    by (rule conjunct1 [OF c3])
  have b: "jobs_inserted ?m1 = jobs_inserted new_metrics + 1"
    using mp [OF conjunct1 [OF conjunct2 [OF c3]] absent] by blast
  have d: "jobs_updated (snd (snd ?r2)) = jobs_updated ?m1 + 1"
    using mp [OF conjunct2 [OF conjunct2 [OF conjunct2 [OF c3]]] second] by blast
  have u1: "jobs_updated ?m1 = jobs_updated new_metrics"
    using mp [OF conjunct1 [OF conjunct2 [OF c3]] absent] by blast
  have z: "jobs_inserted new_metrics = 0" "jobs_updated new_metrics = 0"
    by (simp_all add: new_metrics_def)
  from f1 inv a b d u1 z show ?thesis by simp
qed

section \<open>Reconciler: invalidation\<close>

lemma disable_by_id:
  assumes "distinct (map job_id rows)"
  shows "map (\<lambda>r. if job_id r \<in> set (map job_id (filter P rows)) then g r else r) rows
       = map (\<lambda>r. if P r then g r else r) rows"
proof -
  have "\<And>r. r \<in> set rows \<Longrightarrow> (job_id r \<in> set (map job_id (filter P rows))) = P r"
  proof -
    fix r assume r: "r \<in> set rows"
    show "(job_id r \<in> set (map job_id (filter P rows))) = P r"
    proof
      assume "job_id r \<in> set (map job_id (filter P rows))"
      then obtain r' where r': "r' \<in> set rows" "P r'" "job_id r' = job_id r" by auto
      from assms r r'(1) r'(3) have "r' = r"
        by (meson distinct_map inj_onD)
      with r'(2) show "P r" by simp
    next
      assume "P r"
      with r show "job_id r \<in> set (map job_id (filter P rows))" by auto
    qed
  qed
  then show ?thesis by (auto intro: map_cong)
qed

lemma to_disable_eq:
  "map fst (filter (\<lambda>(i, u). u \<notin> set urls) (select_available cid d))
     = map job_id (filter (\<lambda>r. company_id r = cid \<and> is_available r \<and> application_url r \<notin> set urls) (jobs d))"
  by (induction "jobs d" arbitrary: d) (auto simp: select_available_def filter_map comp_def)


lemma invalidate_missing_Inr:
  assumes r: "invalidate_missing e co urls w m = (Inr (), w1, m1)" and ne: "urls \<noteq> []"
  shows "jobs (db w1) =
           (let ids = map fst (filter (\<lambda>(i, u). u \<notin> set urls) (select_available (co_id co) (db w)))
            in if ids = [] then jobs (db w)
               else jobs (disable_jobs ids (clock e (Suc (ops w))) (db w)))
       \<and> m1 = m\<lparr>jobs_marked_unavailable := jobs_marked_unavailable m +
               length (map fst (filter (\<lambda>(i, u). u \<notin> set urls) (select_available (co_id co) (db w))))\<rparr>
       \<and> companies (db w1) = companies (db w) \<and> scraping_runs (db w1) = scraping_runs (db w)"
  using r ne
  by (auto simp: invalidate_missing_def stmt_def Let_def disable_jobs_def
      split: option.splits prod.splits sum.splits if_splits)

lemma invalidate_missing_exact:
  assumes r: "invalidate_missing e co urls w m = (Inr (), w1, m1)"
    and ne: "urls \<noteq> []"
    and inv: "distinct (map job_id (jobs (db w)))"
  shows "jobs (db w1) =
             map (\<lambda>r. if company_id r = co_id co \<and> is_available r \<and> application_url r \<notin> set urls
                       then r\<lparr>is_available := False, updated_at := clock e (Suc (ops w))\<rparr>
                       else r) (jobs (db w))
           \<and> jobs_marked_unavailable m1 = jobs_marked_unavailable m +
               length (filter (\<lambda>r. company_id r = co_id co \<and> is_available r
                                  \<and> application_url r \<notin> set urls) (jobs (db w)))"
proof (rule conjI)
  let ?P = "\<lambda>r. company_id r = co_id co \<and> is_available r \<and> application_url r \<notin> set urls"
  let ?g = "\<lambda>r. r\<lparr>is_available := False, updated_at := clock e (Suc (ops w))\<rparr>"
  let ?ids = "map job_id (filter ?P (jobs (db w)))"
  note s = invalidate_missing_Inr [OF r ne, unfolded to_disable_eq Let_def]
  have j: "jobs (db w1) = (if ?ids = [] then jobs (db w)
               else jobs (disable_jobs ?ids (clock e (Suc (ops w))) (db w)))"
    using s by blast
  have "jobs (db w1) = map (\<lambda>r. if ?P r then ?g r else r) (jobs (db w))"
  proof (cases "?ids = []")
    case True
    then have "\<forall>r \<in> set (jobs (db w)). \<not> ?P r"
      by (simp add: filter_empty_conv)
    then have "map (\<lambda>r. if ?P r then ?g r else r) (jobs (db w)) = jobs (db w)"
      by (intro map_idI) auto
    with j True show ?thesis by simp
  next
    case False
    with j have "jobs (db w1) = map (\<lambda>r. if job_id r \<in> set ?ids then ?g r else r) (jobs (db w))"
      by (simp add: disable_jobs_def)
    also have "\<dots> = map (\<lambda>r. if ?P r then ?g r else r) (jobs (db w))"
      using inv by (rule disable_by_id)
    finally show ?thesis .
  qed
  then show "jobs (db w1) =
             map (\<lambda>r. if company_id r = co_id co \<and> is_available r \<and> application_url r \<notin> set urls
                       then r\<lparr>is_available := False, updated_at := clock e (Suc (ops w))\<rparr>
                       else r) (jobs (db w))" .
  from s show "jobs_marked_unavailable m1 = jobs_marked_unavailable m +
               length (filter ?P (jobs (db w)))"
    by simp
qed

subsection \<open>The batch that is invalidated against\<close>

lemma fold_max_ge: "x \<in> set ks \<Longrightarrow> x \<le> fold max ks (a :: nat)"
proof (induction ks arbitrary: a)
  case Nil
  then show ?case by simp
next
  case (Cons k ks)
  have mono: "b \<le> fold max ks b" for b :: nat
  proof (induction ks arbitrary: b)
    case Nil
    show ?case by simp
  next
    case (Cons c cs)
    have "b \<le> max c b" by simp
    also have "\<dots> \<le> fold max cs (max c b)" by (rule Cons.IH)
    finally show ?case by simp
  qed
  show ?case
  proof (cases "x = k")
    case True
    have "k \<le> max k a" by simp
    also have "\<dots> \<le> fold max ks (max k a)" by (rule mono)
    finally show ?thesis using True by simp
  next
    case False
    with Cons.prems have "x \<in> set ks" by simp
    from Cons.IH [OF this] show ?thesis by simp
  qed
qed

lemma fresh_key_notin: "fresh_key ks \<notin> set ks"
proof
  assume "fresh_key ks \<in> set ks"
  from fold_max_ge [OF this, of 0] show False by (simp add: fresh_key_def)
qed

lemma upsert_job_ids:
  assumes "distinct (map job_id (jobs d))"
  shows "distinct (map job_id (jobs (fst (upsert_job j now d))))"
proof (cases "\<exists>r \<in> set (jobs d). application_url r = application_url j")
  case True
  then have "map job_id (jobs (fst (upsert_job j now d))) = map job_id (jobs d)"
    by (simp add: upsert_job_def comp_def if_distrib cong: if_cong)
  with assms show ?thesis by simp
next
  case False
  then have "map job_id (jobs (fst (upsert_job j now d)))
      = map job_id (jobs d) @ [fresh_key (map job_id (jobs d))]"
    by (simp add: upsert_job_def)
  with assms fresh_key_notin [of "map job_id (jobs d)"] show ?thesis by simp
qed

lemma save_jobs_loop_ids:
  "save_jobs_loop e now js w m = (Inr (), w1, m1) \<Longrightarrow> distinct (map job_id (jobs (db w)))
     \<Longrightarrow> distinct (map job_id (jobs (db w1)))"
proof (induction js arbitrary: w m)
  case Nil
  then show ?case by simp
next
  case (Cons j js)
  obtain a wa where p: "stmt e (upsert_job j now) w = (a, wa)"
    by (cases "stmt e (upsert_job j now) w") auto
  show ?case
  proof (cases a)
    case (Inl err)
    with p Cons.prems(1) show ?thesis by simp
  next
    case (Inr inserted)
    from stmt_Inr [OF p [unfolded Inr]]
    have "db wa = fst (upsert_job j now (db w))" by simp
    with Cons.prems(2) have d: "distinct (map job_id (jobs (db wa)))"
      by (simp add: upsert_job_ids)
    let ?m = "if inserted then m\<lparr>jobs_inserted := jobs_inserted m + 1\<rparr>
              else m\<lparr>jobs_updated := jobs_updated m + 1\<rparr>"
    from p Inr Cons.prems(1) have "save_jobs_loop e now js wa ?m = (Inr (), w1, m1)" by simp
    from Cons.IH [OF this d] show ?thesis .
  qed
qed

lemma save_jobs_ids:
  assumes s: "save_jobs e js w m = (Inr (), w1, m1)"
    and d: "distinct (map job_id (jobs (db w)))"
  shows "distinct (map job_id (jobs (db w1)))"
proof (cases "js = []")
  case True
  with s d show ?thesis by (simp add: save_jobs_def)
next
  case False
  obtain a wa ma where l: "save_jobs_loop e (clock e (ops w)) js w m = (a, wa, ma)"
    by (cases "save_jobs_loop e (clock e (ops w)) js w m") auto
  from s False l have "a = Inr ()" "wa = w1" "ma = m1"
    by (cases a; simp add: save_jobs_def)+
  with l have "save_jobs_loop e (clock e (ops w)) js w m = (Inr (), w1, m1)" by simp
  from save_jobs_loop_ids [OF this d] show ?thesis .
qed

lemma dedup_loop_prefix: "\<exists>ys. dedup_loop js seen unique = unique @ ys"
proof (induction js arbitrary: seen unique)
  case Nil
  show ?case by simp
next
  case (Cons j js)
  show ?case
  proof (cases "job_key j \<in> seen")
    case True
    with Cons.IH [of seen unique] show ?thesis by (simp add: Let_def)
  next
    case False
    from Cons.IH [of "insert (job_key j) seen" "unique @ [j]"]
    obtain ys where "dedup_loop js (insert (job_key j) seen) (unique @ [j]) = (unique @ [j]) @ ys"
      by blast
    with False show ?thesis by (simp add: Let_def)
  qed
qed

lemma deduplicate_nonempty: "js \<noteq> [] \<Longrightarrow> deduplicate js \<noteq> []"
proof (cases js)
  case Nil
  assume "js \<noteq> []"
  with Nil show ?thesis by simp
next
  case (Cons j rest)
  from dedup_loop_prefix [of rest "{job_key j}" "[j]"]
  obtain ys where "dedup_loop rest {job_key j} [j] = [j] @ ys" by blast
  with Cons show ?thesis by (simp add: deduplicate_def Let_def)
qed

lemma process_company_batch:
  assumes sc: "scrape_company (web_of_run e rid) co = Inr found" and ne: "found \<noteq> []"
    and p: "process_company e rid co w m = (Inr (), w2, m2)"
  shows "fst (save_jobs e (deduplicate found) w
               (m\<lparr>companies_scraped := companies_scraped m + 1,
                  jobs_scraped := jobs_scraped m + length found\<rparr>)) = Inr ()
       \<and> invalidate_missing e co (map application_url (deduplicate found))
            (fst (snd (save_jobs e (deduplicate found) w
               (m\<lparr>companies_scraped := companies_scraped m + 1,
                  jobs_scraped := jobs_scraped m + length found\<rparr>))))
            (snd (snd (save_jobs e (deduplicate found) w
               (m\<lparr>companies_scraped := companies_scraped m + 1,
                  jobs_scraped := jobs_scraped m + length found\<rparr>))))
          = (Inr (), w2, m2)"
proof -
  let ?m = "m\<lparr>companies_scraped := companies_scraped m + 1,
              jobs_scraped := jobs_scraped m + length found\<rparr>"
  obtain a ws ms where s: "save_jobs e (deduplicate found) w ?m = (a, ws, ms)"
    by (cases "save_jobs e (deduplicate found) w ?m") auto
  show ?thesis
  proof (cases a)
    case (Inl err)
    with sc ne p s show ?thesis by (simp add: process_company_def Let_def)
  next
    case (Inr u)
    with sc ne p s show ?thesis by (simp add: process_company_def Let_def)
  qed
qed

text \<open>
  C1. An invalidation that returns normally, on a table whose ids are distinct: with a
  non-empty URL list it makes unavailable exactly the rows of the company that were
  available and whose application URL is not in the list, leaves every other row as it
  was, and adds their number to \<open>jobs_marked_unavailable\<close>; with an empty list it changes
  neither the store nor the metrics. In a run, a company whose scrape returns no job is
  skipped before anything is persisted or invalidated; for a company whose scrape returns
  jobs and whose processing returns normally, the deduplicated batch has been persisted,
  its URL list is not empty, and the invalidation has been made with that list on the
  table as the batch left it.
\<close>

theorem C1_invalidation:
  assumes inv: "distinct (map job_id (jobs (db w)))"
  shows "(invalidate_missing e co urls w m = (Inr (), w1, m1) \<and> urls \<noteq> [] \<longrightarrow>
           jobs (db w1) =
             map (\<lambda>r. if company_id r = co_id co \<and> is_available r \<and> application_url r \<notin> set urls
                       then r\<lparr>is_available := False, updated_at := clock e (Suc (ops w))\<rparr>
                       else r) (jobs (db w))
           \<and> jobs_marked_unavailable m1 = jobs_marked_unavailable m +
               length (filter (\<lambda>r. company_id r = co_id co \<and> is_available r
                                  \<and> application_url r \<notin> set urls) (jobs (db w))))
       \<and> invalidate_missing e co [] w m = (Inr (), w, m)
       \<and> (scrape_company (web_of_run e rid) co = Inr [] \<longrightarrow>
            process_company e rid co w m = (Inr (), w, m))
       \<and> (scrape_company (web_of_run e rid) co = Inr found \<and> found \<noteq> []
            \<and> process_company e rid co w m = (Inr (), w2, m2) \<longrightarrow>
            (let batch = deduplicate found;
                 batch_urls = map application_url batch;
                 saved = save_jobs e batch w
                           (m\<lparr>companies_scraped := companies_scraped m + 1,
                              jobs_scraped := jobs_scraped m + length found\<rparr>);
                 ws = fst (snd saved);
                 ms = snd (snd saved)
             in fst saved = Inr () \<and> batch_urls \<noteq> []
                \<and> jobs (db w2) =
                    map (\<lambda>r. if company_id r = co_id co \<and> is_available r
                                 \<and> application_url r \<notin> set batch_urls
                              then r\<lparr>is_available := False, updated_at := clock e (Suc (ops ws))\<rparr>
                              else r) (jobs (db ws))
                \<and> jobs_marked_unavailable m2 = jobs_marked_unavailable ms +
                    length (filter (\<lambda>r. company_id r = co_id co \<and> is_available r
                                       \<and> application_url r \<notin> set batch_urls) (jobs (db ws)))))"
proof (intro conjI impI)
  assume a: "invalidate_missing e co urls w m = (Inr (), w1, m1) \<and> urls \<noteq> []"
  then have r: "invalidate_missing e co urls w m = (Inr (), w1, m1)" and ne: "urls \<noteq> []"
    by simp_all
  from invalidate_missing_exact [OF r ne inv]
  show "jobs (db w1) =
             map (\<lambda>r. if company_id r = co_id co \<and> is_available r \<and> application_url r \<notin> set urls
                       then r\<lparr>is_available := False, updated_at := clock e (Suc (ops w))\<rparr>
                       else r) (jobs (db w))"
    and "jobs_marked_unavailable m1 = jobs_marked_unavailable m +
               length (filter (\<lambda>r. company_id r = co_id co \<and> is_available r
                                  \<and> application_url r \<notin> set urls) (jobs (db w)))"
    by simp_all
next
  show "invalidate_missing e co [] w m = (Inr (), w, m)"
    by (simp add: invalidate_missing_def)
next
  assume "scrape_company (web_of_run e rid) co = Inr []"
  then show "process_company e rid co w m = (Inr (), w, m)"
    by (simp add: process_company_def)
next
  assume a: "scrape_company (web_of_run e rid) co = Inr found \<and> found \<noteq> []
            \<and> process_company e rid co w m = (Inr (), w2, m2)"
  let ?m = "m\<lparr>companies_scraped := companies_scraped m + 1,
              jobs_scraped := jobs_scraped m + length found\<rparr>"
  let ?saved = "save_jobs e (deduplicate found) w ?m"
  let ?ws = "fst (snd ?saved)"
  let ?ms = "snd (snd ?saved)"
  let ?urls = "map application_url (deduplicate found)"
  from a have sc: "scrape_company (web_of_run e rid) co = Inr found" and ne: "found \<noteq> []"
    and p: "process_company e rid co w m = (Inr (), w2, m2)"
    by simp_all
  note b = process_company_batch [OF sc ne p]
  from b have f: "fst ?saved = Inr ()" by (rule conjunct1)
  from b have i: "invalidate_missing e co ?urls ?ws ?ms = (Inr (), w2, m2)" by (rule conjunct2)
  from f have s: "?saved = (Inr (), ?ws, ?ms)" by (metis prod.collapse)
  from save_jobs_ids [OF s inv] have d: "distinct (map job_id (jobs (db ?ws)))" .
  from deduplicate_nonempty [OF ne] have une: "?urls \<noteq> []" by simp
  note x = invalidate_missing_exact [OF i une d]
  from f une conjunct1 [OF x] conjunct2 [OF x] show "let batch = deduplicate found;
                 batch_urls = map application_url batch;
                 saved = save_jobs e batch w
                           (m\<lparr>companies_scraped := companies_scraped m + 1,
                              jobs_scraped := jobs_scraped m + length found\<rparr>);
                 ws = fst (snd saved);
                 ms = snd (snd saved)
             in fst saved = Inr () \<and> batch_urls \<noteq> []
                \<and> jobs (db w2) =
                    map (\<lambda>r. if company_id r = co_id co \<and> is_available r
                                 \<and> application_url r \<notin> set batch_urls
                              then r\<lparr>is_available := False, updated_at := clock e (Suc (ops ws))\<rparr>
                              else r) (jobs (db ws))
                \<and> jobs_marked_unavailable m2 = jobs_marked_unavailable ms +
                    length (filter (\<lambda>r. company_id r = co_id co \<and> is_available r
                                       \<and> application_url r \<notin> set batch_urls) (jobs (db ws)))"
    unfolding Let_def by (intro conjI)
qed

theorem C1_invalidation_witness:
  "distinct (map job_id (jobs (db acme_store)))
   \<and> fst (invalidate_missing quiet_env acme [''https://acme.example/X''] acme_store new_metrics) = Inr ()
   \<and> map is_available (jobs (db (fst (snd (invalidate_missing quiet_env acme
          [''https://acme.example/X''] acme_store new_metrics))))) = [True, False, True]
   \<and> jobs_marked_unavailable (snd (snd (invalidate_missing quiet_env acme
          [''https://acme.example/X''] acme_store new_metrics))) = 1
   \<and> scrape_company (web_of_run quiet_env 7) acme = Inr []
   \<and> process_company quiet_env 7 acme acme_store new_metrics = (Inr (), acme_store, new_metrics)
   \<and> scrape_company (web_of_run busy_env 7) acme = Inr acme_jobs
   \<and> fst (process_company busy_env 7 acme acme_store new_metrics) = Inr ()
   \<and> map (\<lambda>r. (application_url r, is_available r))
        (jobs (db (fst (snd (process_company busy_env 7 acme acme_store new_metrics)))))
        = [(''https://acme.example/X'', False), (''https://acme.example/Y'', False),
           (''https://other.example/Z'', True), (''https://acme.example/jobs/1'', True),
           (''https://acme.example/api/jobs'', True)]
   \<and> jobs_marked_unavailable (snd (snd (process_company busy_env 7 acme acme_store new_metrics)))
        = 2"
proof -
  let ?r = "invalidate_missing quiet_env acme [''https://acme.example/X''] acme_store new_metrics"
  let ?P = "\<lambda>r. company_id r = co_id acme \<and> is_available r
               \<and> application_url r \<notin> set [''https://acme.example/X'']"
  have f: "fst ?r = Inr ()" by code_simp
  then have r: "?r = (Inr (), fst (snd ?r), snd (snd ?r))"
    by (metis prod.collapse)
  have inv: "distinct (map job_id (jobs (db acme_store)))"
    by (simp add: acme_store_def)
  have ne: "[''https://acme.example/X''] \<noteq> []" by simp
  note c1 = mp [OF conjunct1 [OF C1_invalidation [OF inv]] conjI [OF r ne]]
  have ev1: "map is_available
       (map (\<lambda>r. if ?P r then r\<lparr>is_available := False,
                                updated_at := clock quiet_env (Suc (ops acme_store))\<rparr> else r)
          (jobs (db acme_store))) = [True, False, True]"
    by code_simp
  have ev2: "jobs_marked_unavailable new_metrics + length (filter ?P (jobs (db acme_store))) = 1"
    by code_simp
  have a: "map is_available (jobs (db (fst (snd ?r)))) = [True, False, True]"
    by (simp only: conjunct1 [OF c1] ev1)
  have b: "jobs_marked_unavailable (snd (snd ?r)) = 1"
    by (simp only: conjunct2 [OF c1] ev2)
  have q: "scrape_company (web_of_run quiet_env 7) acme = Inr []" by code_simp
  have skip: "process_company quiet_env 7 acme acme_store new_metrics
      = (Inr (), acme_store, new_metrics)"
    by (rule mp [OF conjunct1 [OF conjunct2 [OF conjunct2 [OF C1_invalidation [OF inv]]]] q])
  let ?s = "scrape_company (web_of_run busy_env 7) acme"
  let ?found = "acme_jobs"
  let ?p = "process_company busy_env 7 acme acme_store new_metrics"
  have sc: "?s = Inr ?found" by (rule acme_scrape)
  have fne: "?found \<noteq> []" by (rule acme_jobs_nonempty)
  let ?m = "new_metrics\<lparr>companies_scraped := companies_scraped new_metrics + 1,
              jobs_scraped := jobs_scraped new_metrics + length ?found\<rparr>"
  have pc: "?p = (case save_jobs busy_env acme_batch acme_store ?m of
                    (Inl err, w1, m3) \<Rightarrow> (Inl err, w1, m3)
                  | (Inr u, w1, m3) \<Rightarrow>
                      invalidate_missing busy_env acme (map application_url acme_batch) w1 m3)"
    by (simp add: process_company_def acme_scrape acme_dedup acme_jobs_nonempty Let_def)
  have "fst (case save_jobs busy_env acme_batch acme_store ?m of
                    (Inl err, w1, m3) \<Rightarrow> (Inl err, w1, m3)
                  | (Inr u, w1, m3) \<Rightarrow>
                      invalidate_missing busy_env acme (map application_url acme_batch) w1 m3)
         = Inr ()"
    by code_simp
  with pc have fp: "fst ?p = Inr ()" by (simp only:)
  then have p: "?p = (Inr (), fst (snd ?p), snd (snd ?p))"
    by (metis prod.collapse)
  let ?ws = "fst (snd (save_jobs busy_env acme_batch acme_store ?m))"
  let ?ms = "snd (snd (save_jobs busy_env acme_batch acme_store ?m))"
  let ?Q = "\<lambda>r. company_id r = co_id acme \<and> is_available r
               \<and> application_url r \<notin> set (map application_url acme_batch)"
  note c4 = mp [OF conjunct2 [OF conjunct2 [OF conjunct2 [OF C1_invalidation [OF inv]]]]
                conjI [OF sc conjI [OF fne p]], unfolded Let_def acme_dedup]
  from c4 have j: "jobs (db (fst (snd ?p))) =
      map (\<lambda>r. if ?Q r then r\<lparr>is_available := False, updated_at := clock busy_env (Suc (ops ?ws))\<rparr>
                else r) (jobs (db ?ws))"
    by (rule conjunct1 [OF conjunct2 [OF conjunct2]])
  from c4 have k: "jobs_marked_unavailable (snd (snd ?p)) =
      jobs_marked_unavailable ?ms + length (filter ?Q (jobs (db ?ws)))"
    by (rule conjunct2 [OF conjunct2 [OF conjunct2]])
  have ev3: "map (\<lambda>r. (application_url r, is_available r))
       (map (\<lambda>r. if ?Q r then r\<lparr>is_available := False, updated_at := clock busy_env (Suc (ops ?ws))\<rparr>
                else r) (jobs (db ?ws)))
        = [(''https://acme.example/X'', False), (''https://acme.example/Y'', False),
           (''https://other.example/Z'', True), (''https://acme.example/jobs/1'', True),
           (''https://acme.example/api/jobs'', True)]"
    by code_simp
  have ev4: "jobs_marked_unavailable ?ms + length (filter ?Q (jobs (db ?ws))) = 2"
    by code_simp
  have c: "map (\<lambda>r. (application_url r, is_available r)) (jobs (db (fst (snd ?p))))
        = [(''https://acme.example/X'', False), (''https://acme.example/Y'', False),
           (''https://other.example/Z'', True), (''https://acme.example/jobs/1'', True),
           (''https://acme.example/api/jobs'', True)]"
    by (simp only: j ev3)
  have d: "jobs_marked_unavailable (snd (snd ?p)) = 2"
    by (simp only: k ev4)
  from inv f a b q skip sc fp c d show ?thesis by (intro conjI)
qed

section \<open>Reconciler: the company upsert\<close>

lemma upsert_companies_loop_dict:
  assumes "c \<in> set found" and "truthy (careers_url c)"
  shows "\<exists>err w1. upsert_companies_loop e now found w = (Inl err, w1)"
  using assms
proof (induction found arbitrary: w)
  case Nil
  then show ?case by simp
next
  case (Cons a rest)
  obtain r wa where s: "stmt_json e (payload_arg a) (\<lambda>payload d. (upsert_company a payload now d, ())) w = (r, wa)"
    by (cases "stmt_json e (payload_arg a) (\<lambda>payload d. (upsert_company a payload now d, ())) w") auto
  show ?case
  proof (cases r)
    case (Inl err)
    with s show ?thesis by simp
  next
    case (Inr u)
    have "c \<noteq> a"
    proof
      assume "c = a"
      with Cons.prems(2) have "payload_arg a = Py_dict (detect_endpoint (or_str (careers_url a) []))"
        by (simp add: payload_arg_def)
      with stmt_json_dict [of e "detect_endpoint (or_str (careers_url a) [])"
          "\<lambda>payload d. (upsert_company a payload now d, ())" w] s Inr
      show False by auto
    qed
    with Cons.prems(1) have "c \<in> set rest" by simp
    from Cons.IH [OF this Cons.prems(2), of wa] s Inr show ?thesis by simp
  qed
qed

lemma upsert_companies_dict:
  assumes "c \<in> set found" and "truthy (careers_url c)"
  shows "\<exists>err. fst (upsert_companies e found w) = Inl err"
    and "db (snd (upsert_companies e found w)) = db w"
proof -
  from assms(1) have ne: "found \<noteq> []" by auto
  from upsert_companies_loop_dict [OF assms, of e "clock e (ops w)" w]
  obtain err w1 where "upsert_companies_loop e (clock e (ops w)) found w = (Inl err, w1)"
    by blast
  with ne have "upsert_companies e found w = (Inl err, w1\<lparr>db := db w\<rparr>)"
    by (simp add: upsert_companies_def)
  then show "\<exists>err. fst (upsert_companies e found w) = Inl err"
    and "db (snd (upsert_companies e found w)) = db w"
    by simp_all
qed

lemma upsert_companies_without_url:
  assumes "\<not> truthy (careers_url c)" and "faults e (ops w) = None"
  shows "upsert_companies e [c] w =
           (Inr 1, \<lparr>db = upsert_company c None (clock e (ops w)) (db w), ops = Suc (ops w)\<rparr>)"
  using assms by (simp add: upsert_companies_def payload_arg_def stmt_json_none)

lemma upsert_company_null_url:
  assumes "careers_url c = None" and "name c \<in> name ` set (companies d)"
  shows "companies (upsert_company c None now d) =
           map (\<lambda>r. if name r = name c then r\<lparr>domain := domain c, company_updated_at := now\<rparr> else r)
             (companies d)"
proof -
  from assms(2) have ex: "\<exists>r \<in> set (companies d). name r = name c" by auto
  have "(\<lambda>r::company_row. if name r = name c
               then r\<lparr>domain := domain c,
                      careers_url := coalesce (careers_url c) (careers_url r),
                      careers_endpoint_payload := coalesce None (careers_endpoint_payload r),
                      company_updated_at := now\<rparr>
               else r)
      = (\<lambda>r. if name r = name c then r\<lparr>domain := domain c, company_updated_at := now\<rparr> else r)"
    using assms(1) by (auto simp: coalesce_def)
  with ex show ?thesis by (simp add: upsert_company_def)
qed

text \<open>
  C4 fails in the code for every candidate that has a careers URL. For such a candidate
  \<open>upsert_companies\<close> passes the dictionary that \<open>detect_endpoint\<close> returns as the argument
  for \<open>careers_endpoint_payload\<close>; the driver refuses it, the statement raises and the
  transaction is rolled back. On an empty table the candidate Acme, with a careers URL, is
  not stored; on a table that has Acme already, under another domain, the row keeps its
  domain and gets no careers URL. The same candidate without the careers URL is upserted
  and replaces the domain.
\<close>

theorem C4_careers_url_raises:
  "upsert_companies quiet_env [acme_found] empty_world = (Inl data_error, empty_world\<lparr>ops := 1\<rparr>)
   \<and> upsert_companies quiet_env [acme_found] acme_known = (Inl data_error, acme_known\<lparr>ops := 1\<rparr>)
   \<and> fst (upsert_companies quiet_env [acme_found\<lparr>careers_url := None\<rparr>] acme_known) = Inr 1
   \<and> map (\<lambda>r. (name r, domain r, careers_url r))
        (companies (db (snd (upsert_companies quiet_env [acme_found\<lparr>careers_url := None\<rparr>]
                               acme_known))))
      = [(''Acme'', Some ''acme.example'', None)]"
  by code_simp

section \<open>Metrics of a run\<close>















subsection \<open>Two runs over the example company\<close>









section \<open>Run coordinator: what a run does to the table of runs\<close>

lemma stmt_runs:
  "stmt e f w = (r, w1) \<Longrightarrow> (\<And>d. scraping_runs (fst (f d)) = scraping_runs d)
     \<Longrightarrow> scraping_runs (db w1) = scraping_runs (db w)"
  by (auto simp: stmt_def split: option.splits prod.splits) (metis fst_conv)

lemma stmt_json_runs:
  "stmt_json e a f w = (r, w1) \<Longrightarrow> (\<And>v d. scraping_runs (fst (f v d)) = scraping_runs d)
     \<Longrightarrow> scraping_runs (db w1) = scraping_runs (db w)"
  by (auto simp: stmt_json_def split: option.splits prod.splits sum.splits) (metis fst_conv)

lemma upsert_company_runs:
  "scraping_runs (upsert_company c payload now d) = scraping_runs d"
  by (simp add: upsert_company_def)

lemma upsert_job_runs:
  "scraping_runs (fst (upsert_job j now d)) = scraping_runs d"
  by (simp add: upsert_job_def)

lemma disable_jobs_runs:
  "scraping_runs (disable_jobs ids now d) = scraping_runs d"
  by (simp add: disable_jobs_def)

lemma upsert_companies_loop_runs:
  "upsert_companies_loop e now cs w = (r, w1) \<Longrightarrow> scraping_runs (db w1) = scraping_runs (db w)"
proof (induction cs arbitrary: w)
  case Nil
  then show ?case by simp
next
  case (Cons c cs)
  obtain a wa where s: "stmt_json e (payload_arg c) (\<lambda>payload d. (upsert_company c payload now d, ())) w = (a, wa)"
    by (cases "stmt_json e (payload_arg c) (\<lambda>payload d. (upsert_company c payload now d, ())) w") auto
  from stmt_json_runs [OF s] have fr: "scraping_runs (db wa) = scraping_runs (db w)"
    by (simp add: upsert_company_runs)
  show ?case
  proof (cases a)
    case (Inl err)
    with s Cons.prems fr show ?thesis by auto
  next
    case (Inr u)
    with s Cons.prems have "upsert_companies_loop e now cs wa = (r, w1)" by simp
    from Cons.IH [OF this] fr show ?thesis by simp
  qed
qed

lemma upsert_companies_runs:
  assumes "upsert_companies e cs w = (r, w1)"
  shows "scraping_runs (db w1) = scraping_runs (db w)"
proof (cases "cs = []")
  case True
  with assms show ?thesis by (simp add: upsert_companies_def)
next
  case False
  obtain a wa where l: "upsert_companies_loop e (clock e (ops w)) cs w = (a, wa)"
    by (cases "upsert_companies_loop e (clock e (ops w)) cs w") auto
  from assms False l upsert_companies_loop_runs [OF l] show ?thesis
    by (auto simp: upsert_companies_def split: sum.splits)
qed

lemma load_active_companies_db:
  "load_active_companies e w = (r, w1) \<Longrightarrow> db w1 = db w"
  by (auto simp: load_active_companies_def stmt_def split: option.splits)

lemma save_jobs_loop_runs:
  "save_jobs_loop e now js w m = (r, w1, m1) \<Longrightarrow> scraping_runs (db w1) = scraping_runs (db w)"
proof (induction js arbitrary: w m)
  case Nil
  then show ?case by simp
next
  case (Cons j js)
  obtain a wa where s: "stmt e (upsert_job j now) w = (a, wa)"
    by (cases "stmt e (upsert_job j now) w") auto
  from stmt_runs [OF s] have fr: "scraping_runs (db wa) = scraping_runs (db w)"
    by (simp add: upsert_job_runs)
  show ?case
  proof (cases a)
    case (Inl err)
    with s Cons.prems fr show ?thesis by auto
  next
    case (Inr inserted)
    with s Cons.prems obtain m' where "save_jobs_loop e now js wa m' = (r, w1, m1)" by simp
    from Cons.IH [OF this] fr show ?thesis by simp
  qed
qed

lemma save_jobs_runs:
  assumes "save_jobs e js w m = (r, w1, m1)"
  shows "scraping_runs (db w1) = scraping_runs (db w)"
proof (cases "js = []")
  case True
  with assms show ?thesis by (simp add: save_jobs_def)
next
  case False
  obtain a wa ma where l: "save_jobs_loop e (clock e (ops w)) js w m = (a, wa, ma)"
    by (cases "save_jobs_loop e (clock e (ops w)) js w m") auto
  from assms False l save_jobs_loop_runs [OF l] show ?thesis
    by (auto simp: save_jobs_def split: sum.splits)
qed

lemma invalidate_missing_runs:
  "invalidate_missing e co urls w m = (r, w1, m1) \<Longrightarrow> scraping_runs (db w1) = scraping_runs (db w)"
  by (auto simp: invalidate_missing_def stmt_def Let_def disable_jobs_runs
      split: if_splits option.splits prod.splits sum.splits)

lemma process_company_runs:
  assumes "process_company e rid co w m = (r, w1, m1)"
  shows "scraping_runs (db w1) = scraping_runs (db w)"
proof (cases "scrape_company (web_of_run e rid) co")
  case (Inl err)
  with assms show ?thesis by (simp add: process_company_def)
next
  case (Inr found)
  show ?thesis
  proof (cases "found = []")
    case True
    with assms Inr show ?thesis by (simp add: process_company_def)
  next
    case False
    let ?m2 = "m\<lparr>companies_scraped := companies_scraped m + 1,
                 jobs_scraped := jobs_scraped m + length found\<rparr>"
    obtain ra wa ma where sv: "save_jobs e (deduplicate found) w ?m2 = (ra, wa, ma)"
      by (cases "save_jobs e (deduplicate found) w ?m2") auto
    note fr = save_jobs_runs [OF sv]
    show ?thesis
    proof (cases ra)
      case bad: (Inl err)
      with assms Inr False sv fr show ?thesis by (simp add: process_company_def Let_def)
    next
      case ok: (Inr u)
      with assms Inr False sv
      have "invalidate_missing e co (map application_url (deduplicate found)) wa ma = (r, w1, m1)"
        by (simp add: process_company_def Let_def)
      from invalidate_missing_runs [OF this] fr show ?thesis by simp
    qed
  qed
qed

lemma scrape_loop_runs:
  "scrape_loop e rid cos w m = (r, w1, m1) \<Longrightarrow> scraping_runs (db w1) = scraping_runs (db w)"
proof (induction cos arbitrary: w m)
  case Nil
  then show ?case by simp
next
  case (Cons co cos)
  obtain ra wa ma where pc: "process_company e rid co w m = (ra, wa, ma)"
    by (cases "process_company e rid co w m") auto
  note fr = process_company_runs [OF pc]
  show ?case
  proof (cases ra)
    case (Inl err)
    with pc Cons.prems fr show ?thesis by auto
  next
    case (Inr u)
    with pc Cons.prems have "scrape_loop e rid cos wa ma = (r, w1, m1)" by simp
    from Cons.IH [OF this] fr show ?thesis by simp
  qed
qed

lemma pipeline_body_raises_runs:
  "(\<exists>err. fst (pipeline_body e rid w) = Inl err)
   \<and> scraping_runs (db (fst (snd (pipeline_body e rid w)))) = scraping_runs (db w)"
proof -
  let ?m = "new_metrics\<lparr>companies_discovered := length (discover e rid),
              companies_with_careers :=
                length (filter (\<lambda>c. truthy (careers_url c)) (discover e rid)),
              companies_scraped := 0\<rparr>"
  obtain a wa where u: "upsert_companies e (discover e rid) w = (a, wa)"
    by (cases "upsert_companies e (discover e rid) w") auto
  note fu = upsert_companies_runs [OF u]
  show ?thesis
  proof (cases a)
    case (Inl err)
    with u fu show ?thesis by (simp add: pipeline_body_def Let_def)
  next
    case (Inr n)
    obtain b wb where l: "load_active_companies e wa = (b, wb)"
      by (cases "load_active_companies e wa") auto
    from load_active_companies_db [OF l] fu
    have fl: "scraping_runs (db wb) = scraping_runs (db w)" by simp
    show ?thesis
    proof (cases b)
      case (Inl err)
      with u \<open>a = Inr n\<close> l fl show ?thesis by (simp add: pipeline_body_def Let_def)
    next
      case (Inr cos)
      obtain c wc mc where sl: "scrape_loop e rid cos wb ?m = (c, wc, mc)"
        by (cases "scrape_loop e rid cos wb ?m") auto
      from scrape_loop_runs [OF sl] fl
      have fs: "scraping_runs (db wc) = scraping_runs (db w)" by simp
      show ?thesis
      proof (cases c)
        case (Inl err)
        with u \<open>a = Inr n\<close> l \<open>b = Inr cos\<close> sl fs show ?thesis
          by (simp add: pipeline_body_def Let_def)
      next
        case (Inr v)
        from stmt_json_dict [of e mc
            "\<lambda>doc d. (finish_success rid (clock e (ops wc)) doc mc d, ())" wc]
        obtain err where "stmt_json e (Py_dict mc)
            (\<lambda>doc d. (finish_success rid (clock e (ops wc)) doc mc d, ())) wc
              = (Inl err, wc\<lparr>ops := Suc (ops wc)\<rparr>)"
          by blast
        with u \<open>a = Inr n\<close> l \<open>b = Inr cos\<close> sl fs Inr show ?thesis
          by (simp add: pipeline_body_def Let_def)
      qed
    qed
  qed
qed

lemma run_pipeline_raises_runs:
  "(\<exists>err. fst (run_pipeline e rid w) = Inl err)
   \<and> scraping_runs (db (snd (run_pipeline e rid w))) = scraping_runs (db w)"
proof -
  obtain res w1 m where p: "pipeline_body e rid w = (res, w1, m)"
    by (cases "pipeline_body e rid w") auto
  from pipeline_body_raises_runs [of e rid w] p obtain err where
    r: "res = Inl err" and f: "scraping_runs (db w1) = scraping_runs (db w)"
    by auto
  from stmt_json_dict [of e "m\<lparr>errors := errors m @ [err]\<rparr>"
      "\<lambda>doc d. (finish_failed rid (clock e (ops w1)) doc d, ())" w1]
  obtain err2 where "stmt_json e (Py_dict (m\<lparr>errors := errors m @ [err]\<rparr>))
      (\<lambda>doc d. (finish_failed rid (clock e (ops w1)) doc d, ())) w1
        = (Inl err2, w1\<lparr>ops := Suc (ops w1)\<rparr>)"
    by blast
  with p r f show ?thesis by (simp add: run_pipeline_def Let_def)
qed

lemma background_worker_stops:
  assumes "claim_next_run e w = (Inr (Some rid), w1)"
  shows "\<exists>err. fst (background_worker e (Suc n) w) = Inl err"
proof -
  obtain r w2 where p: "run_pipeline e rid w1 = (r, w2)"
    by (cases "run_pipeline e rid w1") auto
  with run_pipeline_raises_runs [of e rid w1] obtain err where "r = Inl err" by auto
  with assms p show ?thesis by simp
qed

text \<open>
  C6 fails in the code. The \<open>except\<close> block of \<open>run_pipeline\<close> writes the failed status with
  \<open>metrics.to_dict()\<close>, a dictionary, as the argument for \<open>details\<close>; the driver refuses it,
  so the statement raises in its turn, the exception leaves \<open>run_pipeline\<close> and, nothing
  catching it, the background loop. Here one run is queued and the store fails once, on the
  first statement of the pipeline: the worker claims run 7, the pipeline raises
  \<open>connection lost\<close>, the update to \<open>failed\<close> raises, the run stays \<open>running\<close> with no details,
  and the loop has ended after its first round.
\<close>

theorem C6_failed_update_raises:
  "fst (claim_next_run flaky_env one_queued) = Inr (Some 7)
   \<and> fst (pipeline_body flaky_env 7 (snd (claim_next_run flaky_env one_queued)))
       = Inl ''connection lost''
   \<and> fst (run_pipeline flaky_env 7 (snd (claim_next_run flaky_env one_queued))) = Inl data_error
   \<and> map (\<lambda>r. (run_id r, status r, details r))
        (scraping_runs (db (snd (run_pipeline flaky_env 7
                                   (snd (claim_next_run flaky_env one_queued))))))
       = [(7, Running, None)]
   \<and> fst (background_worker flaky_env 3 one_queued) = Inl data_error
   \<and> map (\<lambda>r. (run_id r, status r, details r))
        (scraping_runs (db (snd (background_worker flaky_env 3 one_queued))))
       = [(7, Running, None)]"
  by code_simp

section \<open>Claiming a run; several workers\<close>

lemma oldest_None: "oldest rs = None \<longleftrightarrow> rs = []"
  by (induction rs) (auto split: option.splits)

lemma oldest_Some:
  assumes "oldest rs = Some r"
  shows "r \<in> set rs \<and> (\<forall>r' \<in> set rs. started_at r \<le> started_at r')"
  using assms
proof (induction rs arbitrary: r)
  case Nil
  then show ?case by simp
next
  case (Cons a rs)
  show ?case
  proof (cases "oldest rs")
    case None
    then have "rs = []" by (simp add: oldest_None)
    with Cons.prems show ?thesis by simp
  next
    case (Some b)
    from Cons.IH [OF Some]
    have b: "b \<in> set rs" "\<forall>r' \<in> set rs. started_at b \<le> started_at r'" by auto
    show ?thesis
    proof (cases "started_at a \<le> started_at b")
      case True
      with Some Cons.prems have "r = a" by simp
      with True b show ?thesis by fastforce
    next
      case False
      with Some Cons.prems have "r = b" by simp
      with False b show ?thesis by fastforce
    qed
  qed
qed

lemma select_queued_None:
  "select_queued lk d = None \<longleftrightarrow>
     (\<forall>r \<in> set (scraping_runs d). status r = Queued \<longrightarrow> run_id r \<in> lk)"
  by (auto simp: select_queued_def oldest_None filter_empty_conv)

lemma select_queued_Some:
  assumes "select_queued lk d = Some rid"
  shows "\<exists>r \<in> set (scraping_runs d).
           run_id r = rid \<and> status r = Queued \<and> rid \<notin> lk
           \<and> (\<forall>r' \<in> set (scraping_runs d).
                 status r' = Queued \<and> run_id r' \<notin> lk \<longrightarrow> started_at r \<le> started_at r')"
proof -
  let ?qs = "filter (\<lambda>r. status r = Queued \<and> run_id r \<notin> lk) (scraping_runs d)"
  from assms obtain r where r: "oldest ?qs = Some r" "run_id r = rid"
    by (auto simp: select_queued_def)
  from oldest_Some [OF r(1)] r(2) show ?thesis by auto
qed

lemma set_running_runs:
  "scraping_runs (set_running rid t d) =
     map (\<lambda>r. if run_id r = rid then r\<lparr>status := Running, started_at := t\<rparr> else r)
       (scraping_runs d)"
  by (simp add: set_running_def)

lemma set_running_status:
  assumes a: "r \<in> set (scraping_runs (set_running rid t d))" and b: "run_id r = rid"
  shows "status r = Running"
proof -
  from a obtain x where
    x: "r = (if run_id x = rid then x\<lparr>status := Running, started_at := t\<rparr> else x)"
    by (auto simp only: set_running_runs set_map image_iff)
  show ?thesis
  proof (cases "run_id x = rid")
    case True
    with x show ?thesis by simp
  next
    case False
    with x b show ?thesis by simp
  qed
qed

lemma claim_next_run_running:
  assumes c: "claim_next_run e w = (Inr (Some rid), w1)"
    and r: "r \<in> set (scraping_runs (db w1))" "run_id r = rid"
  shows "status r = Running"
proof -
  obtain a wa where s: "claim_select e w = (a, wa)" by (cases "claim_select e w") auto
  obtain b wb where u: "claim_update e rid wa = (b, wb)" by (cases "claim_update e rid wa") auto
  from c s have a: "a = Inr (Some rid)"
    by (cases a) (auto simp: claim_next_run_def split: option.splits prod.splits sum.splits)
  from c s a u have b: "b = Inr () \<and> wb = w1"
    by (cases b; simp add: claim_next_run_def)
  from u b have "stmt e (\<lambda>d. (set_running rid (clock e (ops wa)) d, ())) wa = (Inr (), w1)"
    by (simp add: claim_update_def)
  from stmt_Inr [OF this]
  have "w1 = \<lparr>db = set_running rid (clock e (ops wa)) (db wa), ops = Suc (ops wa)\<rparr>" by simp
  then have "db w1 = set_running rid (clock e (ops wa)) (db wa)" by simp
  with r(1) have "r \<in> set (scraping_runs (set_running rid (clock e (ops wa)) (db wa)))"
    by (simp only:)
  from set_running_status [OF this r(2)] show ?thesis .
qed

lemma claim_next_run_then_select:
  \<comment> \<open>one claim after the other: the second does not see the run the first has claimed\<close>
  assumes "claim_next_run e w = (Inr (Some rid), w1)"
  shows "select_queued lk (db w1) \<noteq> Some rid"
proof
  assume "select_queued lk (db w1) = Some rid"
  from select_queued_Some [OF this] obtain r where
    r: "r \<in> set (scraping_runs (db w1))" "run_id r = rid" "status r = Queued" by auto
  from claim_next_run_running [OF assms r(1,2)] r(3) show False by simp
qed

text \<open>
  C2 fails in the code. \<open>claim_next_run\<close> sends its \<open>SELECT ... FOR UPDATE SKIP LOCKED\<close> and
  its \<open>UPDATE\<close> as two statements through the pool, outside any transaction, so the row lock
  of the first ends with that statement, and the \<open>UPDATE\<close> does not ask for
  \<open>status='queued'\<close>. Two workers, one queued run (id 7), each step one statement, in the
  order worker 0, worker 1, worker 0, worker 1: both select run 7, both set it to running,
  and both hold it as their claimed run.
\<close>

theorem C2_double_claim:
  "fst (run_schedule quiet_env [0, 1] [Polling, Polling] one_queued) = [Selected 7, Selected 7]
   \<and> fst (run_schedule quiet_env [0, 1, 0, 1] [Polling, Polling] one_queued)
       = [Claimed 7, Claimed 7]
   \<and> status_of 7 (snd (run_schedule quiet_env [0, 1, 0, 1] [Polling, Polling] one_queued))
       = [Running]"
  by code_simp

section \<open>The status of a run\<close>



















end
